theory Spec2Isabelle
  imports Main "HOL-Library.Sublist"
begin

section \<open>Go strings\<close>

text \<open>
  A Go string is a sequence of bytes; \<open>string\<close> (a list of 8-bit characters) is that
  sequence. The functions of package \<open>strings\<close> that the program calls are written out
  for the arguments the program passes.
\<close>

text \<open>\<open>strings.Contains(s, substr)\<close>: \<open>substr\<close> occurs in \<open>s\<close> at some byte offset.\<close>

fun Contains :: "string \<Rightarrow> string \<Rightarrow> bool" where
  "Contains [] substr = (substr = [])"
| "Contains (c # cs) substr = (prefix substr (c # cs) \<or> Contains cs substr)"

text \<open>
  \<open>strings.Replace(s, old, new, 1)\<close>: the leftmost occurrence of \<open>old\<close> is replaced,
  and \<open>s\<close> is returned as it is when there is none. (An empty \<open>old\<close> matches at the
  beginning of the string.)
\<close>

fun Replace1 :: "string \<Rightarrow> string \<Rightarrow> string \<Rightarrow> string" where
  "Replace1 [] old new = (if old = [] then new else [])"
| "Replace1 (c # cs) old new =
     (if prefix old (c # cs) then new @ drop (length old) (c # cs)
      else c # Replace1 cs old new)"

text \<open>
  \<open>strings.Split(s, sep)\<close> and \<open>strings.SplitN(s, sep, n)\<close> for a separator of one
  byte (the program only splits at \<open>"/"\<close>). The result of \<open>Split\<close> is never empty:
  the empty string splits into one empty field. \<open>SplitN\<close> returns at most \<open>n\<close> fields,
  the last one being the unsplit remainder.
\<close>

fun Split :: "string \<Rightarrow> char \<Rightarrow> string list" where
  "Split [] sep = [[]]"
| "Split (c # cs) sep =
     (if c = sep then [] # Split cs sep
      else (let r = Split cs sep in (c # hd r) # tl r))"

fun SplitN :: "string \<Rightarrow> char \<Rightarrow> nat \<Rightarrow> string list" where
  "SplitN [] sep n = (if n = 0 then [] else [[]])"
| "SplitN (c # cs) sep n =
     (if n = 0 then []
      else if n = 1 then [c # cs]
      else if c = sep then [] # SplitN cs sep (n - 1)
      else (let r = SplitN cs sep n in (c # hd r) # tl r))"

text \<open>
  \<open>strings.ToLower\<close> maps Unicode code points; the status updater takes it as a
  parameter, so that what is proved about the updater holds for every lower-casing.
  On ASCII text \<open>strings.ToLower\<close> is the byte map below, which the concrete
  examples use.
\<close>

definition lowerByte :: "char \<Rightarrow> char" where
  "lowerByte c =
     (case map_of (zip ''ABCDEFGHIJKLMNOPQRSTUVWXYZ'' ''abcdefghijklmnopqrstuvwxyz'') c of
        Some l \<Rightarrow> l
      | None \<Rightarrow> c)"

definition asciiToLower :: "string \<Rightarrow> string" where
  "asciiToLower s = map lowerByte s"

section \<open>The status rows\<close>

text \<open>
  The two row patterns of \<open>updateStreamStatus\<close>:
  \<open>fmt.Sprintf("&nbsp; | `%s`", name)\<close> and \<open>fmt.Sprintf("\<dots> | `%s`", name)\<close>, the
  latter starting with the four bytes \<open>F0 9F 9F A2\<close> of the green circle U+1F7E2.
\<close>

definition greenCircle :: string where
  "greenCircle = [CHR 0xF0, CHR 0x9F, CHR 0x9F, CHR 0xA2]"

definition offlineRow :: "string \<Rightarrow> string" where
  "offlineRow name = ''&nbsp; | `'' @ name @ ''`''"

definition onlineRow :: "string \<Rightarrow> string" where
  "onlineRow name = greenCircle @ '' | `'' @ name @ ''`''"

section \<open>The repository state and its errors\<close>

text \<open>
  An \<open>error\<close> value is its text (\<open>Error()\<close>), which is what the program prints and
  searches; \<open>NoChangeNeededError\<close> is the one error type the program tells apart
  (by \<open>%T\<close>).
\<close>

datatype error = NoChangeNeededError string | OtherError string

fun errorText :: "error \<Rightarrow> string" where
  "errorText (NoChangeNeededError m) = m"
| "errorText (OtherError m) = m"

datatype repository = Repository string

record StreamersRepo =
  auth :: "string \<times> string"
  indexFilePath :: string
  indexMdText :: string
  online :: bool
  repo :: "repository option"
  repoPath :: string
  streamer :: string
  url :: string

text \<open>\<open>%v\<close> of a bool.\<close>

definition fmtBool :: "bool \<Rightarrow> string" where
  "fmtBool b = (if b then ''true'' else ''false'')"

definition noChangeNeeded :: "StreamersRepo \<Rightarrow> error" where
  "noChangeNeeded s =
     NoChangeNeededError
       (''no change needed for: '' @ streamer s @ '', online: '' @ fmtBool (online s))"

section \<open>updateStreamStatus\<close>

text \<open>
  The method mutates \<open>s.indexMdText\<close> and returns an error; the model returns the
  error (\<open>None\<close> for \<open>nil\<close>) together with the state after the call.
\<close>

definition updateStreamStatus ::
  "(string \<Rightarrow> string) \<Rightarrow> StreamersRepo \<Rightarrow> error option \<times> StreamersRepo" where
  "updateStreamStatus ToLower s =
     (let streamerLower = ToLower (streamer s) in
      if online s then
        (let offlineTextSearch =
               (if Contains (indexMdText s) (streamer s) then offlineRow (streamer s)
                else offlineRow streamerLower);
             onlineText = onlineRow (streamer s);
             onlineTextLower = onlineRow streamerLower
         in if Contains (indexMdText s) onlineText \<or> Contains (indexMdText s) onlineTextLower
            then (Some (noChangeNeeded s), s)
            else (None, s\<lparr>indexMdText := Replace1 (indexMdText s) offlineTextSearch onlineText\<rparr>))
      else
        (let onlineTextSearch =
               (if Contains (indexMdText s) (streamer s) then onlineRow (streamer s)
                else onlineRow streamerLower);
             offlineText = offlineRow (streamer s);
             offlineTextOnline = offlineRow streamerLower
         in if Contains (indexMdText s) offlineText \<or> Contains (indexMdText s) offlineTextOnline
            then (Some (noChangeNeeded s), s)
            else (None, s\<lparr>indexMdText := Replace1 (indexMdText s) onlineTextSearch offlineText\<rparr>)))"

section \<open>The outside world\<close>

text \<open>
  Everything the program does to the outside is recorded, in order, as a list of
  effects: what it logs, what it writes to the HTTP response, and each call into the
  git library and the file system (a call is recorded whether it then fails or not).
  A \<open>Log\<close> carries the message that is handed to the logger: for \<open>log.Printf\<close> the
  formatted text, with the line feed of the format, and for \<open>log.Println\<close> the
  operands separated by spaces.
\<close>

datatype effect =
    Log string
  | HttpWriteHeader nat
  | HttpWrite string
  | PlainClone string string
  | PlainOpen string
  | Worktree
  | Pull bool string string
  | ReadFile string
  | WriteFile string string
  | Add string
  | Commit string
  | Head
  | CommitObject
  | Push string
  | Exit int

definition newline :: string where
  "newline = [CHR 0x0A]"

text \<open>
  How a call ends: it returns, or it does not: it ends the process (\<open>os.Exit\<close>), it
  panics on an index out of range (the index and the length of the slice), or it
  panics on a method of \<open>s.repo\<close> called while \<open>s.repo\<close> is \<open>nil\<close>. (A panic inside
  the handler ends the request, not the process: net/http recovers it.)
\<close>

datatype abort = Exits int | IndexPanics nat nat | NilPanics

datatype 'a outcome = Returns 'a | Aborts abort

text \<open>The fields of the decoded notification that the handler reads.\<close>

record eventSubNotification =
  Challenge :: string
  Event :: string
  SubscriptionType :: string

text \<open>
  The answers of the outside world during one request: the request itself, the
  library functions applied to it, and the result of each git and file operation.
  A library call either returns its value or an error. \<open>verify body\<close> is the verdict
  of \<open>helix.VerifyEventSubNotification\<close> for the configured secret, the headers of
  the request and \<open>body\<close>; \<open>broadcasterUserName\<close> is the field of that name after
  decoding the raw event (the decoder's error is discarded by the handler).
\<close>

record world =
  readAll :: "error + string"
  verify :: "string \<Rightarrow> bool"
  jsonDecode :: "string \<Rightarrow> error + eventSubNotification"
  broadcasterUserName :: "string \<Rightarrow> string"
  subscriptionTypeHeader :: string
  toLower :: "string \<Rightarrow> string"
  plainClone :: "error + repository"
  plainOpen :: "error + repository"
  worktreeOfOpened :: "error option"
  osReadFile :: "error + string"
  ioWriteFile :: "error option"
  worktreeForAdd :: "error option"
  worktreeAdd :: "error option"
  worktreeForCommit :: "error option"
  worktreeCommit :: "error option"
  repoHead :: "error option"
  commitObject :: "error + string"
  repoPush :: "error option"

section \<open>The repository methods\<close>

text \<open>
  \<open>gitPush\<close>, \<open>gitCommit\<close>, \<open>gitAdd\<close> and \<open>getHeadCommit\<close> call methods of \<open>s.repo\<close>, a
  pointer that is \<open>nil\<close> until \<open>getRepo\<close> has assigned it: the call on a \<open>nil\<close>
  pointer panics before anything is done.
\<close>

definition gitPush :: "world \<Rightarrow> StreamersRepo \<Rightarrow> effect list \<times> error option outcome" where
  "gitPush w s =
     (case repo s of
        None \<Rightarrow> ([], Aborts NilPanics)
      | Some r \<Rightarrow>
          (case repoPush w of
             Some err \<Rightarrow> ([Push ''origin''], Returns (Some err))
           | None \<Rightarrow>
               ([Push ''origin'', Log (''remote repo updated. '' @ indexFilePath s)],
                Returns None)))"

definition getHeadCommit ::
  "world \<Rightarrow> StreamersRepo \<Rightarrow> effect list \<times> (error + string) outcome" where
  "getHeadCommit w s =
     (case repo s of
        None \<Rightarrow> ([], Aborts NilPanics)
      | Some r \<Rightarrow>
          (case repoHead w of
             Some err \<Rightarrow> ([Head], Returns (Inl err))
           | None \<Rightarrow>
               (case commitObject w of
                  Inl err \<Rightarrow> ([Head, CommitObject], Returns (Inl err))
                | Inr commit \<Rightarrow> ([Head, CommitObject], Returns (Inr commit)))))"

text \<open>
  The two commit messages; the offline one starts with the bytes of U+2620 U+FE0F
  and two spaces.
\<close>

definition skull :: string where
  "skull = [CHR 0xE2, CHR 0x98, CHR 0xA0, CHR 0xEF, CHR 0xB8, CHR 0x8F]"

definition commitMessage :: "StreamersRepo \<Rightarrow> string" where
  "commitMessage s =
     (if online s then greenCircle @ '' '' @ streamer s @ '' has gone online! [no ci]''
      else skull @ ''  '' @ streamer s @ '' has gone offline! [no ci]'')"

definition gitCommit :: "world \<Rightarrow> StreamersRepo \<Rightarrow> effect list \<times> error option outcome" where
  "gitCommit w s =
     (case repo s of
        None \<Rightarrow> ([], Aborts NilPanics)
      | Some r \<Rightarrow>
          (case worktreeForCommit w of
             Some err \<Rightarrow> ([Worktree], Returns (Some err))
           | None \<Rightarrow>
               (case worktreeCommit w of
                  Some err \<Rightarrow> ([Worktree, Commit (commitMessage s)], Returns (Some err))
                | None \<Rightarrow>
                    (case getHeadCommit w s of
                       (t, Aborts a) \<Rightarrow> ([Worktree, Commit (commitMessage s)] @ t, Aborts a)
                     | (t, Returns (Inl err)) \<Rightarrow>
                         ([Worktree, Commit (commitMessage s)] @ t, Returns (Some err))
                     | (t, Returns (Inr commit)) \<Rightarrow>
                         ([Worktree, Commit (commitMessage s)] @ t @ [Log commit],
                          Returns None)))))"

text \<open>\<open>strings.Split(s.indexFilePath, "/")[1]\<close> panics when the path has no slash.\<close>

definition gitAdd :: "world \<Rightarrow> StreamersRepo \<Rightarrow> effect list \<times> error option outcome" where
  "gitAdd w s =
     (case repo s of
        None \<Rightarrow> ([], Aborts NilPanics)
      | Some r \<Rightarrow>
          (case worktreeForAdd w of
             Some err \<Rightarrow> ([Worktree], Returns (Some err))
           | None \<Rightarrow>
               (let parts = Split (indexFilePath s) CHR ''/'' in
                if length parts \<le> 1 then ([Worktree], Aborts (IndexPanics 1 (length parts)))
                else (case worktreeAdd w of
                        Some err \<Rightarrow> ([Worktree, Add (parts ! 1)], Returns (Some err))
                      | None \<Rightarrow> ([Worktree, Add (parts ! 1)], Returns None)))))"

text \<open>
  \<open>getRepo\<close>: the clone goes to the fifth field of the URL, which panics when the URL
  has fewer than four slashes. The error of the pull is dropped. \<open>s.repo\<close> is assigned
  only where \<open>getRepo\<close> returns \<open>nil\<close>.
\<close>

definition getRepo ::
  "world \<Rightarrow> StreamersRepo \<Rightarrow> effect list \<times> error option outcome \<times> StreamersRepo" where
  "getRepo w s =
     (let parts = SplitN (url s) CHR ''/'' 5 in
      if length parts \<le> 4 then ([], Aborts (IndexPanics 4 (length parts)), s)
      else
        (let directory = parts ! 4 in
         case plainClone w of
           Inr r \<Rightarrow> ([PlainClone directory (url s)], Returns None, s\<lparr>repo := Some r\<rparr>)
         | Inl err \<Rightarrow>
             if \<not> Contains (errorText err) ''exists''
             then ([PlainClone directory (url s)], Returns (Some err), s)
             else
               (case plainOpen w of
                  Inl err2 \<Rightarrow>
                    ([PlainClone directory (url s), PlainOpen (repoPath s)],
                     Returns (Some err2), s)
                | Inr r \<Rightarrow>
                    (case worktreeOfOpened w of
                       Some err3 \<Rightarrow>
                         ([PlainClone directory (url s), PlainOpen (repoPath s),
                           Log ''Doing git pull'', Worktree],
                          Returns (Some err3), s)
                     | None \<Rightarrow>
                         ([PlainClone directory (url s), PlainOpen (repoPath s),
                           Log ''Doing git pull'', Worktree, Pull True ''HEAD'' ''origin''],
                          Returns None, s\<lparr>repo := Some r\<rparr>)))))"

definition writefile :: "world \<Rightarrow> StreamersRepo \<Rightarrow> string \<Rightarrow> effect list \<times> error option" where
  "writefile w s text = ([WriteFile (indexFilePath s) text], ioWriteFile w)"

definition readFile :: "world \<Rightarrow> StreamersRepo \<Rightarrow> effect list \<times> error option \<times> StreamersRepo" where
  "readFile w s =
     (case osReadFile w of
        Inl err \<Rightarrow> ([ReadFile (indexFilePath s)], Some err, s)
      | Inr markdownText \<Rightarrow>
          ([ReadFile (indexFilePath s)], None, s\<lparr>indexMdText := markdownText\<rparr>))"

section \<open>The orchestration\<close>

text \<open>\<open>if err != nil { log.Printf(msg + "%s\n", err) }\<close>.\<close>

definition logIfError :: "string \<Rightarrow> error option \<Rightarrow> effect list" where
  "logIfError msg r =
     (case r of None \<Rightarrow> [] | Some err \<Rightarrow> [Log (msg @ errorText err @ newline)])"

definition updateMarkdown ::
  "world \<Rightarrow> StreamersRepo \<Rightarrow> effect list \<times> error option outcome \<times> StreamersRepo" where
  "updateMarkdown w s =
     (case getRepo w s of
        (t1, Aborts a, s1) \<Rightarrow> (t1, Aborts a, s1)
      | (t1, Returns r1, s1) \<Rightarrow>
          (let l1 = logIfError ''error during repo clone: '' r1 in
           case readFile w s1 of
             (t2, Some err, s2) \<Rightarrow>
               (t1 @ l1 @ t2
                  @ [Log (''error reading file: '' @ errorText err @ newline), Exit (- 1)],
                Aborts (Exits (- 1)), s2)
           | (t2, None, s2) \<Rightarrow>
               (case updateStreamStatus (toLower w) s2 of
                  (Some (NoChangeNeededError m), s3) \<Rightarrow>
                    (t1 @ l1 @ t2, Returns (Some (NoChangeNeededError m)), s3)
                | (r3, s3) \<Rightarrow>
                    (let l3 = logIfError ''error updating status: '' r3;
                         (t4, r4) = writefile w s3 (indexMdText s3);
                         l4 = logIfError ''error writing file: '' r4
                     in (t1 @ l1 @ t2 @ l3 @ t4 @ l4, Returns None, s3)))))"

definition updateRepo :: "world \<Rightarrow> StreamersRepo \<Rightarrow> effect list \<times> unit outcome" where
  "updateRepo w s =
     (case gitAdd w s of
        (t1, Aborts a) \<Rightarrow> (t1, Aborts a)
      | (t1, Returns r1) \<Rightarrow>
          (let l1 = logIfError ''error git adding file: error: '' r1 in
           case gitCommit w s of
             (t2, Aborts a) \<Rightarrow> (t1 @ l1 @ t2, Aborts a)
           | (t2, Returns r2) \<Rightarrow>
               (t1 @ l1 @ t2 @ logIfError ''error making commit: '' r2, Returns ())))"

definition pushRepo :: "world \<Rightarrow> StreamersRepo \<Rightarrow> effect list \<times> unit outcome" where
  "pushRepo w s =
     (case gitPush w s of
        (t, Aborts a) \<Rightarrow> (t, Aborts a)
      | (t, Returns r) \<Rightarrow> (t @ logIfError ''error pushing repo to GitHub: '' r, Returns ()))"

text \<open>
  The lines that the two event branches of \<open>eventsubStatus\<close> share, after
  \<open>s.streamer\<close> and \<open>s.online\<close> are set: \<open>updateMarkdown\<close>, then \<open>updateRepo\<close> and
  \<open>pushRepo\<close> when it returned \<open>nil\<close>, and a warning otherwise.
\<close>

definition syncCycle ::
  "world \<Rightarrow> StreamersRepo \<Rightarrow> effect list \<times> unit outcome \<times> StreamersRepo" where
  "syncCycle w s =
     (case updateMarkdown w s of
        (t1, Aborts a, s1) \<Rightarrow> (t1, Aborts a, s1)
      | (t1, Returns (Some err), s1) \<Rightarrow>
          (t1 @ [Log (''index.md doesn't need to be changed for '' @ streamer s1)],
           Returns (), s1)
      | (t1, Returns None, s1) \<Rightarrow>
          (case updateRepo w s1 of
             (t2, Aborts a) \<Rightarrow> (t1 @ t2, Aborts a, s1)
           | (t2, Returns u) \<Rightarrow>
               (case pushRepo w s1 of (t3, r3) \<Rightarrow> (t1 @ t2 @ t3, r3, s1))))"

definition eventsubStatus ::
  "world \<Rightarrow> StreamersRepo \<Rightarrow> effect list \<times> unit outcome \<times> StreamersRepo" where
  "eventsubStatus w s =
     (case readAll w of
        Inl err \<Rightarrow> ([Log (errorText err)], Returns (), s)
      | Inr body \<Rightarrow>
          if \<not> verify w body then ([Log ''invalid signature on message''], Returns (), s)
          else
            (case jsonDecode w body of
               Inl err \<Rightarrow>
                 ([Log ''verified signature on message'', Log (errorText err)], Returns (), s)
             | Inr vals \<Rightarrow>
                 if Challenge vals \<noteq> []
                 then ([Log ''verified signature on message'', HttpWrite (Challenge vals)],
                       Returns (), s)
                 else if SubscriptionType vals = ''stream.offline'' then
                   (let name = broadcasterUserName w (Event vals);
                        (t, r, s') = syncCycle w (s\<lparr>streamer := name, online := False\<rparr>)
                    in ([Log ''verified signature on message'',
                         Log (''got offline event for: '' @ name @ newline),
                         HttpWriteHeader 200, HttpWrite ''ok''] @ t, r, s'))
                 else if SubscriptionType vals = ''stream.online'' then
                   (let name = broadcasterUserName w (Event vals);
                        (t, r, s') = syncCycle w (s\<lparr>streamer := name, online := True\<rparr>)
                    in ([Log ''verified signature on message'',
                         Log (''got online event for: '' @ name @ newline),
                         HttpWriteHeader 200, HttpWrite ''ok''] @ t, r, s'))
                 else
                   ([Log ''verified signature on message'',
                     Log (''error: event type '' @ subscriptionTypeHeader w
                          @ '' has not been implemented -- pull requests welcome!'')],
                    Returns (), s)))"

section \<open>Reading a trace\<close>

text \<open>
  The effects that publish a change: writing the document, staging, committing and
  pushing.
\<close>

fun isPublishEffect :: "effect \<Rightarrow> bool" where
  "isPublishEffect (WriteFile path text) = True"
| "isPublishEffect (Add name) = True"
| "isPublishEffect (Commit message) = True"
| "isPublishEffect (Push remote) = True"
| "isPublishEffect e = False"

text \<open>
  The requests that reach one of the two event branches of \<open>eventsubStatus\<close>: the body
  is read, the signature verifies, the body decodes, there is no challenge and the
  subscription type is \<open>stream.offline\<close> or \<open>stream.online\<close>. The result is the
  broadcaster's name and the value the branch gives \<open>s.online\<close>.
\<close>

definition recognizedEvent :: "world \<Rightarrow> (string \<times> bool) option" where
  "recognizedEvent w =
     (case readAll w of
        Inl err \<Rightarrow> None
      | Inr body \<Rightarrow>
          if \<not> verify w body then None
          else
            (case jsonDecode w body of
               Inl err \<Rightarrow> None
             | Inr vals \<Rightarrow>
                 if Challenge vals \<noteq> [] then None
                 else if SubscriptionType vals = ''stream.offline''
                 then Some (broadcasterUserName w (Event vals), False)
                 else if SubscriptionType vals = ''stream.online''
                 then Some (broadcasterUserName w (Event vals), True)
                 else None))"

section \<open>main\<close>

text \<open>
  \<open>main\<close> up to the call of \<open>http.ListenAndServe\<close>, as a function of the environment
  (\<open>os.Getenv\<close>): it panics on the index into the split URL, or ends the process in
  \<open>log.Fatalln\<close> (exit status 1), or starts to serve on a port with the handler bound to the
  repository state it has built.
\<close>

datatype startup = ListenAndServe string StreamersRepo | StartupExits int | StartupPanics nat nat

definition defaultRepoUrl :: string where
  "defaultRepoUrl = ''https://github.com/infosecstreams/infosecstreams.github.io''"

definition main :: "(string \<Rightarrow> string) \<Rightarrow> effect list \<times> startup" where
  "main getenv =
     (let (l0, repoUrl) =
            (if length (getenv ''SS_GH_REPO'') = 0
             then ([Log (''warning: no SS_GH_REPO specified in environment, defaulting to: ''
                         @ defaultRepoUrl)],
                   defaultRepoUrl)
             else ([], []));
          parts = Split repoUrl CHR ''/''
      in if length parts \<le> 4 then (l0, StartupPanics 4 (length parts))
         else
           (let repoPath = parts ! 4;
                filePath = repoPath @ ''/index.md''
            in if length (getenv ''SS_USERNAME'') = 0 \<or> length (getenv ''SS_TOKEN'') = 0
                  \<or> length (getenv ''SS_SECRETKEY'') = 0
               then (l0 @ [Log ''error: no SS_USERNAME and/or SS_TOKEN and/or SS_SECRETKEY specified in environment!'',
                           Exit 1],
                     StartupExits 1)
               else
                 (let repo = \<lparr> auth = (getenv ''SS_USERNAME'', getenv ''SS_TOKEN''),
                                indexFilePath = filePath,
                                indexMdText = [],
                                online = False,
                                repo = None,
                                repoPath = repoPath,
                                streamer = [],
                                url = repoUrl \<rparr>;
                      port = (if getenv ''PORT'' \<noteq> [] then '':'' @ getenv ''PORT''
                              else if getenv ''SS_PORT'' \<noteq> [] then '':'' @ getenv ''SS_PORT''
                              else '':8080'')
                  in (l0 @ [Log (''server starting on '' @ port)], ListenAndServe port repo))))"

section \<open>Status rows of a document\<close>

text \<open>
  A status row of an entity is an occurrence, at some byte offset of the document, of
  one of the four texts that \<open>updateStreamStatus\<close> searches: the offline or the online
  row, with the name as received or lower-cased.
\<close>

definition rowAt :: "(string \<Rightarrow> string) \<Rightarrow> string \<Rightarrow> string \<Rightarrow> nat \<Rightarrow> bool" where
  "rowAt ToLower name doc i =
     (prefix (offlineRow name) (drop i doc) \<or> prefix (offlineRow (ToLower name)) (drop i doc)
      \<or> prefix (onlineRow name) (drop i doc) \<or> prefix (onlineRow (ToLower name)) (drop i doc))"

definition rowTexts :: "(string \<Rightarrow> string) \<Rightarrow> string \<Rightarrow> string set" where
  "rowTexts ToLower name =
     {offlineRow name, offlineRow (ToLower name), onlineRow name, onlineRow (ToLower name)}"

definition statusRows :: "(string \<Rightarrow> string) \<Rightarrow> string \<Rightarrow> string \<Rightarrow> nat list" where
  "statusRows ToLower name doc = filter (rowAt ToLower name doc) [0..<length doc]"

text \<open>
  An online event followed by an offline event for the same entity: the handler sets
  \<open>s.online\<close> before each call of \<open>updateStreamStatus\<close>. The result is the two
  errors and the final state.
\<close>

definition onlineThenOffline ::
  "(string \<Rightarrow> string) \<Rightarrow> StreamersRepo \<Rightarrow> error option \<times> error option \<times> StreamersRepo" where
  "onlineThenOffline ToLower s =
     (let (e1, s1) = updateStreamStatus ToLower (s\<lparr>online := True\<rparr>);
          (e2, s2) = updateStreamStatus ToLower (s1\<lparr>online := False\<rparr>)
      in (e1, e2, s2))"

section \<open>Concrete states and worlds\<close>

text \<open>A state for the examples: the repository of \<open>main\<close>'s default URL.\<close>

definition exampleRepo :: "string \<Rightarrow> bool \<Rightarrow> string \<Rightarrow> StreamersRepo" where
  "exampleRepo name on doc =
     \<lparr> auth = (''user'', ''token''),
       indexFilePath = ''infosecstreams.github.io/index.md'',
       indexMdText = doc,
       online = on,
       repo = None,
       repoPath = ''infosecstreams.github.io'',
       streamer = name,
       url = ''https://github.com/infosecstreams/infosecstreams.github.io'' \<rparr>"

text \<open>
  A world in which the directory already holds the repository and every later call
  succeeds; the raw event is taken to be the broadcaster's name itself.
\<close>

definition exampleWorld :: "eventSubNotification \<Rightarrow> string \<Rightarrow> world" where
  "exampleWorld vals doc =
     \<lparr> readAll = Inr ''{}'',
       verify = (\<lambda>body. True),
       jsonDecode = (\<lambda>body. Inr vals),
       broadcasterUserName = (\<lambda>ev. ev),
       subscriptionTypeHeader = SubscriptionType vals,
       toLower = asciiToLower,
       plainClone = Inl (OtherError ''repository already exists''),
       plainOpen = Inr (Repository ''infosecstreams.github.io''),
       worktreeOfOpened = None,
       osReadFile = Inr doc,
       ioWriteFile = None,
       worktreeForAdd = None,
       worktreeAdd = None,
       worktreeForCommit = None,
       worktreeCommit = None,
       repoHead = None,
       commitObject = Inr ''commit 0a1b2c'',
       repoPush = None \<rparr>"

definition onlineEvent :: "string \<Rightarrow> eventSubNotification" where
  "onlineEvent name = \<lparr> Challenge = [], Event = name, SubscriptionType = ''stream.online'' \<rparr>"

definition offlineEvent :: "string \<Rightarrow> eventSubNotification" where
  "offlineEvent name = \<lparr> Challenge = [], Event = name, SubscriptionType = ''stream.offline'' \<rparr>"

definition challengeRequest :: "string \<Rightarrow> eventSubNotification" where
  "challengeRequest token =
     \<lparr> Challenge = token, Event = [], SubscriptionType = ''stream.online'' \<rparr>"

text \<open>The error of reading a file that is not there, and an environment that sets
  \<open>SS_GH_REPO\<close> and the three credentials.\<close>

definition noIndexFile :: error where
  "noIndexFile = OtherError ''open infosecstreams.github.io/index.md: no such file or directory''"

definition exampleEnv :: "string \<Rightarrow> string" where
  "exampleEnv name =
     (if name = ''SS_GH_REPO'' then ''https://github.com/example/streamers''
      else if name = ''SS_USERNAME'' then ''user''
      else if name = ''SS_TOKEN'' then ''token''
      else if name = ''SS_SECRETKEY'' then ''secret''
      else [])"

text \<open>A name that contains a backquote and the bytes of the green circle.\<close>

definition oddName :: string where
  "oddName = ''x`'' @ greenCircle @ '' | `x''"

text \<open>
  A lower-casing that is not the one of package \<open>strings\<close>: it maps the name \<open>X\<close> to
  a text that starts with the bytes of the green circle.
\<close>

definition oddLower :: "string \<Rightarrow> string" where
  "oddLower s = (if s = ''X'' then greenCircle @ '' | `X'' else s)"

text \<open>
  Worlds for one request on a process that holds no repository yet: the clone fails
  for a reason that is not an existing repository, and the document is on disk.
\<close>

definition cloneFailsWorld :: "eventSubNotification \<Rightarrow> string \<Rightarrow> world" where
  "cloneFailsWorld vals doc =
     (exampleWorld vals doc)\<lparr>plainClone := Inl (OtherError ''authentication required'')\<rparr>"

section \<open>Facts about the string functions\<close>


lemma Replace1_absent: "\<not> Contains s old \<Longrightarrow> Replace1 s old new = s"
  by (induction s) auto

lemma Contains_iff_occurrence:
  "Contains s p \<longleftrightarrow> (\<exists>i\<le>length s. prefix p (drop i s))"
proof (induction s)
  case Nil
  show ?case by simp
next
  case (Cons c cs)
  have "(\<exists>i\<le>length (c # cs). prefix p (drop i (c # cs)))
        \<longleftrightarrow> prefix p (c # cs) \<or> (\<exists>j\<le>length cs. prefix p (drop j cs))"
  proof
    assume "\<exists>i\<le>length (c # cs). prefix p (drop i (c # cs))"
    then obtain i where i: "i \<le> length (c # cs)" "prefix p (drop i (c # cs))" by blast
    show "prefix p (c # cs) \<or> (\<exists>j\<le>length cs. prefix p (drop j cs))"
    proof (cases i)
      case 0
      with i show ?thesis by simp
    next
      case (Suc j)
      with i have "j \<le> length cs" "prefix p (drop j cs)" by simp_all
      then show ?thesis by blast
    qed
  next
    assume "prefix p (c # cs) \<or> (\<exists>j\<le>length cs. prefix p (drop j cs))"
    then show "\<exists>i\<le>length (c # cs). prefix p (drop i (c # cs))"
    proof
      assume "prefix p (c # cs)"
      then have "prefix p (drop 0 (c # cs))" by simp
      then show ?thesis by blast
    next
      assume "\<exists>j\<le>length cs. prefix p (drop j cs)"
      then obtain j where "j \<le> length cs" "prefix p (drop j cs)" by blast
      then have "Suc j \<le> length (c # cs)" "prefix p (drop (Suc j) (c # cs))" by simp_all
      then show ?thesis by blast
    qed
  qed
  with Cons.IH show ?case by simp
qed

lemma occurrence_in_range:
  assumes "prefix p (drop i s)" "p \<noteq> []"
  shows "i < length s"
proof (rule ccontr)
  assume "\<not> i < length s"
  then have "drop i s = []" by simp
  with assms show False by simp
qed

lemma occurrence_nth:
  assumes "prefix p (drop i s)" "j < length p"
  shows "s ! (i + j) = p ! j"
proof -
  from assms(1) obtain r where r: "drop i s = p @ r" by (auto simp: prefix_def)
  have "length p \<le> length (drop i s)" using r by simp
  then have "i + j < length s" using assms(2) by simp
  then have "s ! (i + j) = drop i s ! j" by simp
  also have "\<dots> = p ! j" using r assms(2) by (simp add: nth_append)
  finally show ?thesis .
qed

lemma Replace1_first:
  assumes "old \<noteq> []" "\<forall>i<length a. \<not> prefix old (drop i (a @ old @ b))"
  shows "Replace1 (a @ old @ b) old new = a @ new @ b"
  using assms
proof (induction a)
  case Nil
  then obtain c cs where "old = c # cs" by (cases old) auto
  then show ?case by simp
next
  case (Cons x a)
  from Cons.prems(2) have 0: "\<not> prefix old (drop 0 ((x # a) @ old @ b))" by blast
  have "\<forall>i<length a. \<not> prefix old (drop i (a @ old @ b))"
  proof (intro allI impI)
    fix i assume "i < length a"
    then have "Suc i < length (x # a)" by simp
    with Cons.prems(2) have "\<not> prefix old (drop (Suc i) ((x # a) @ old @ b))" by blast
    then show "\<not> prefix old (drop i (a @ old @ b))" by simp
  qed
  with Cons.IH Cons.prems(1) have "Replace1 (a @ old @ b) old new = a @ new @ b" by blast
  with 0 show ?case by simp
qed


section \<open>Facts about the status rows\<close>

lemma statusRows_single:
  assumes "statusRows L name doc = [k]" "i < length doc"
  shows "rowAt L name doc i \<longleftrightarrow> i = k"
proof -
  have "set (statusRows L name doc) = {k}" using assms(1) by simp
  then have "{j. j < length doc \<and> rowAt L name doc j} = {k}"
    by (auto simp: statusRows_def)
  with assms(2) show ?thesis by blast
qed

lemma offlineRow_nonempty: "offlineRow n \<noteq> []"
  by (simp add: offlineRow_def)

lemma onlineRow_nonempty: "onlineRow n \<noteq> []"
  by (simp add: onlineRow_def greenCircle_def)

lemma hd_offlineRow: "hd (offlineRow n) = CHR ''&''"
  by (simp add: offlineRow_def)

lemma hd_onlineRow: "hd (onlineRow n) = CHR 0xF0"
  by (simp add: onlineRow_def greenCircle_def)





lemma same_offset_same_head:
  assumes "prefix p (drop i s)" "prefix q (drop i s)" "p \<noteq> []" "q \<noteq> []"
  shows "hd p = hd q"
proof -
  have "s ! (i + 0) = p ! 0" using assms(1,3) by (intro occurrence_nth) simp_all
  moreover have "s ! (i + 0) = q ! 0" using assms(2,4) by (intro occurrence_nth) simp_all
  ultimately show ?thesis using assms(3,4) by (simp add: hd_conv_nth)
qed

lemma rowTexts_nonempty: "q \<in> rowTexts L n \<Longrightarrow> q \<noteq> []"
  by (auto simp: rowTexts_def offlineRow_def onlineRow_def greenCircle_def)

lemma row_occurrence:
  assumes "q \<in> rowTexts L n" "prefix q (drop i doc)"
  shows "rowAt L n doc i \<and> i < length doc"
proof -
  have "q \<noteq> []" using assms(1) by (rule rowTexts_nonempty)
  moreover have "rowAt L n doc i" using assms by (auto simp: rowAt_def rowTexts_def)
  ultimately show ?thesis using assms(2) occurrence_in_range by blast
qed

lemma single_row_only_there:
  assumes "statusRows L n doc = [k]"
    "q \<in> rowTexts L n"
    "prefix q (drop i doc)"
  shows "i = k"
  using row_occurrence [OF assms(2,3)] statusRows_single [OF assms(1)] by blast

lemma single_row_other_head:
  assumes "statusRows L n (a @ r @ b) = [length a]"
    "q \<in> rowTexts L n"
    "r \<noteq> []" "hd q \<noteq> hd r"
  shows "\<not> Contains (a @ r @ b) q"
proof
  assume "Contains (a @ r @ b) q"
  then obtain i where i: "prefix q (drop i (a @ r @ b))"
    unfolding Contains_iff_occurrence by blast
  then have "i = length a" using assms(1,2) single_row_only_there by blast
  moreover have "q \<noteq> []" using assms(2) by (rule rowTexts_nonempty)
  ultimately have "hd q = hd r"
    using i assms(3) same_offset_same_head [of q "length a" "a @ r @ b" r] by simp
  with assms(4) show False by simp
qed

lemma single_row_first:
  assumes "statusRows L n (a @ r @ b) = [length a]"
    "q \<in> rowTexts L n"
  shows "\<forall>i<length a. \<not> prefix q (drop i (a @ r @ b))"
  using single_row_only_there [OF assms] by blast



section \<open>Single steps of the status updater\<close>




lemma online_step_lowercase:
  assumes doc: "indexMdText s = a @ offlineRow (L (streamer s)) @ b"
    and one: "statusRows L (streamer s) (indexMdText s) = [length a]"
    and on: "online s"
    and absent: "\<not> Contains (indexMdText s) (streamer s)"
  shows "updateStreamStatus L s = (None, s\<lparr>indexMdText := a @ onlineRow (streamer s) @ b\<rparr>)"
proof -
  let ?n = "streamer s"
  have one': "statusRows L ?n (a @ offlineRow (L ?n) @ b) = [length a]" using one doc by simp
  have "\<not> Contains (a @ offlineRow (L ?n) @ b) (onlineRow ?n)"
    using one' by (rule single_row_other_head)
      (simp_all add: rowTexts_def offlineRow_nonempty hd_offlineRow hd_onlineRow)
  moreover have "\<not> Contains (a @ offlineRow (L ?n) @ b) (onlineRow (L ?n))"
    using one' by (rule single_row_other_head)
      (simp_all add: rowTexts_def offlineRow_nonempty hd_offlineRow hd_onlineRow)
  ultimately have no: "\<not> Contains (indexMdText s) (onlineRow ?n)"
    "\<not> Contains (indexMdText s) (onlineRow (L ?n))" using doc by simp_all
  have "\<forall>i<length a. \<not> prefix (offlineRow (L ?n)) (drop i (a @ offlineRow (L ?n) @ b))"
    using one' by (rule single_row_first) (simp add: rowTexts_def)
  then have "Replace1 (a @ offlineRow (L ?n) @ b) (offlineRow (L ?n)) (onlineRow ?n)
      = a @ onlineRow ?n @ b"
    using offlineRow_nonempty by (intro Replace1_first) simp_all
  then have r: "Replace1 (indexMdText s) (offlineRow (L ?n)) (onlineRow ?n)
      = a @ onlineRow ?n @ b"
    using doc by simp
  show ?thesis using on absent no r by (simp add: updateStreamStatus_def Let_def)
qed

lemma offline_step_lowercase:
  assumes doc: "indexMdText s = a @ onlineRow (L (streamer s)) @ b"
    and one: "statusRows L (streamer s) (indexMdText s) = [length a]"
    and off: "\<not> online s"
    and absent: "\<not> Contains (indexMdText s) (streamer s)"
  shows "updateStreamStatus L s = (None, s\<lparr>indexMdText := a @ offlineRow (streamer s) @ b\<rparr>)"
proof -
  let ?n = "streamer s"
  have one': "statusRows L ?n (a @ onlineRow (L ?n) @ b) = [length a]" using one doc by simp
  have "\<not> Contains (a @ onlineRow (L ?n) @ b) (offlineRow ?n)"
    using one' by (rule single_row_other_head)
      (simp_all add: rowTexts_def onlineRow_nonempty hd_offlineRow hd_onlineRow)
  moreover have "\<not> Contains (a @ onlineRow (L ?n) @ b) (offlineRow (L ?n))"
    using one' by (rule single_row_other_head)
      (simp_all add: rowTexts_def onlineRow_nonempty hd_offlineRow hd_onlineRow)
  ultimately have no: "\<not> Contains (indexMdText s) (offlineRow ?n)"
    "\<not> Contains (indexMdText s) (offlineRow (L ?n))" using doc by simp_all
  have "\<forall>i<length a. \<not> prefix (onlineRow (L ?n)) (drop i (a @ onlineRow (L ?n) @ b))"
    using one' by (rule single_row_first) (simp add: rowTexts_def)
  then have "Replace1 (a @ onlineRow (L ?n) @ b) (onlineRow (L ?n)) (offlineRow ?n)
      = a @ offlineRow ?n @ b"
    using onlineRow_nonempty by (intro Replace1_first) simp_all
  then have r: "Replace1 (indexMdText s) (onlineRow (L ?n)) (offlineRow ?n)
      = a @ offlineRow ?n @ b"
    using doc by simp
  show ?thesis using off absent no r by (simp add: updateStreamStatus_def Let_def)
qed

section \<open>Facts about the traces of the repository methods\<close>

lemma getRepo_no_publish: "filter isPublishEffect (fst (getRepo w s)) = []"
  by (simp add: getRepo_def Let_def split: sum.splits option.splits)

lemma getRepo_returns:
  "4 < length (SplitN (url s) CHR ''/'' 5) \<Longrightarrow> \<exists>r. fst (snd (getRepo w s)) = Returns r"
  by (simp add: getRepo_def Let_def split: sum.splits option.splits)

lemma getRepo_panics:
  "\<not> 4 < length (SplitN (url s) CHR ''/'' 5) \<Longrightarrow>
   getRepo w s = ([], Aborts (IndexPanics 4 (length (SplitN (url s) CHR ''/'' 5))), s)"
  by (simp add: getRepo_def Let_def)

lemma getRepo_state:
  "indexFilePath (snd (snd (getRepo w s))) = indexFilePath s
   \<and> streamer (snd (snd (getRepo w s))) = streamer s
   \<and> online (snd (snd (getRepo w s))) = online s"
  by (simp add: getRepo_def Let_def split: sum.splits option.splits)

lemma readFile_ok:
  "osReadFile w = Inr doc \<Longrightarrow>
   readFile w s = ([ReadFile (indexFilePath s)], None, s\<lparr>indexMdText := doc\<rparr>)"
  by (simp add: readFile_def)

lemma readFile_failed:
  "osReadFile w = Inl err \<Longrightarrow> readFile w s = ([ReadFile (indexFilePath s)], Some err, s)"
  by (simp add: readFile_def)

lemma updateStreamStatus_fields:
  "indexFilePath (snd (updateStreamStatus L s)) = indexFilePath s
   \<and> streamer (snd (updateStreamStatus L s)) = streamer s
   \<and> online (snd (updateStreamStatus L s)) = online s
   \<and> repo (snd (updateStreamStatus L s)) = repo s"
  by (simp add: updateStreamStatus_def Let_def)

lemma updateStreamStatus_error:
  "fst (updateStreamStatus L s) = None \<or> fst (updateStreamStatus L s) = Some (noChangeNeeded s)"
  by (simp add: updateStreamStatus_def Let_def)

lemma gitAdd_held:
  assumes "repo s = Some r" "1 < length (Split (indexFilePath s) CHR ''/'')"
  shows "gitAdd w s
    = (Worktree # (case worktreeForAdd w of
                     Some err \<Rightarrow> []
                   | None \<Rightarrow> [Add (Split (indexFilePath s) CHR ''/'' ! 1)]),
       Returns (case worktreeForAdd w of Some err \<Rightarrow> Some err | None \<Rightarrow> worktreeAdd w))"
  using assms by (simp add: gitAdd_def Let_def split: option.splits)

lemma gitCommit_held:
  assumes "repo s = Some r"
  shows "gitCommit w s
    = (Worktree # (case worktreeForCommit w of
                     Some err \<Rightarrow> []
                   | None \<Rightarrow>
                       Commit (commitMessage s) #
                       (case worktreeCommit w of
                          Some err \<Rightarrow> []
                        | None \<Rightarrow>
                            Head # (case repoHead w of
                                      Some err \<Rightarrow> []
                                    | None \<Rightarrow>
                                        CommitObject # (case commitObject w of
                                                          Inl err \<Rightarrow> []
                                                        | Inr commit \<Rightarrow> [Log commit])))),
       Returns (case worktreeForCommit w of
                  Some err \<Rightarrow> Some err
                | None \<Rightarrow>
                    (case worktreeCommit w of
                       Some err \<Rightarrow> Some err
                     | None \<Rightarrow>
                         (case repoHead w of
                            Some err \<Rightarrow> Some err
                          | None \<Rightarrow>
                              (case commitObject w of
                                 Inl err \<Rightarrow> Some err
                               | Inr commit \<Rightarrow> None)))))"
  using assms by (simp add: gitCommit_def getHeadCommit_def split: option.splits sum.splits)

lemma gitPush_held:
  assumes "repo s = Some r"
  shows "gitPush w s
    = (Push ''origin'' # (case repoPush w of
                            Some err \<Rightarrow> []
                          | None \<Rightarrow> [Log (''remote repo updated. '' @ indexFilePath s)]),
       Returns (repoPush w))"
  using assms by (simp add: gitPush_def split: option.splits)

lemma gitAdd_nil: "repo s = None \<Longrightarrow> gitAdd w s = ([], Aborts NilPanics)"
  by (simp add: gitAdd_def)

lemma gitAdd_no_exit: "snd (gitAdd w s) \<noteq> Aborts (Exits c)"
  by (simp add: gitAdd_def Let_def split: option.splits)

lemma gitCommit_no_exit: "snd (gitCommit w s) \<noteq> Aborts (Exits c)"
  by (simp add: gitCommit_def getHeadCommit_def split: option.splits sum.splits)

lemma gitPush_no_exit: "snd (gitPush w s) \<noteq> Aborts (Exits c)"
  by (simp add: gitPush_def split: option.splits)

lemma updateRepo_no_exit: "snd (updateRepo w s) \<noteq> Aborts (Exits c)"
proof -
  obtain t1 o1 where a: "gitAdd w s = (t1, o1)" by (cases "gitAdd w s")
  obtain t2 o2 where b: "gitCommit w s = (t2, o2)" by (cases "gitCommit w s")
  have "o1 \<noteq> Aborts (Exits c)" using gitAdd_no_exit [of w s c] a by simp
  moreover have "o2 \<noteq> Aborts (Exits c)" using gitCommit_no_exit [of w s c] b by simp
  ultimately show ?thesis
    by (auto simp: updateRepo_def a b Let_def split: outcome.splits)
qed

lemma pushRepo_no_exit: "snd (pushRepo w s) \<noteq> Aborts (Exits c)"
proof -
  obtain t o1 where a: "gitPush w s = (t, o1)" by (cases "gitPush w s")
  have "o1 \<noteq> Aborts (Exits c)" using gitPush_no_exit [of w s c] a by simp
  then show ?thesis by (auto simp: pushRepo_def a split: outcome.splits)
qed

lemma eventsubStatus_recognized:
  assumes "recognizedEvent w = Some (name, flag)"
  shows "eventsubStatus w s
    = ([Log ''verified signature on message'',
        Log ((if flag then ''got online event for: '' else ''got offline event for: '')
             @ name @ newline),
        HttpWriteHeader 200, HttpWrite ''ok'']
         @ fst (syncCycle w (s\<lparr>streamer := name, online := flag\<rparr>)),
       snd (syncCycle w (s\<lparr>streamer := name, online := flag\<rparr>)))"
  using assms
  by (auto simp: recognizedEvent_def eventsubStatus_def Let_def split_beta
      split: sum.splits if_splits)

lemma eventsubStatus_unrecognized:
  assumes "recognizedEvent w = None"
  shows "fst (snd (eventsubStatus w s)) = Returns ()"
  using assms
  by (auto simp: recognizedEvent_def eventsubStatus_def Let_def split_beta
      split: sum.splits if_splits)

lemma getRepo_cases:
  assumes "4 < length (SplitN (url s) CHR ''/'' 5)"
  obtains t1 r1 s1 where "getRepo w s = (t1, Returns r1, s1)"
proof -
  obtain t1 o1 s1 where g: "getRepo w s = (t1, o1, s1)" by (cases "getRepo w s")
  from getRepo_returns [OF assms, of w] g obtain r1 where "o1 = Returns r1" by auto
  then show ?thesis using g that by blast
qed

lemma getRepo_result_fields:
  assumes "getRepo w s = (t1, o1, s1)"
  shows "indexFilePath s1 = indexFilePath s" "streamer s1 = streamer s" "online s1 = online s"
    "filter isPublishEffect t1 = []"
  using getRepo_state [of w s] getRepo_no_publish [of w s] assms by simp_all

lemma updateStreamStatus_result_fields:
  assumes "updateStreamStatus L s = (r3, s3)"
  shows "indexFilePath s3 = indexFilePath s" "streamer s3 = streamer s" "online s3 = online s"
    "repo s3 = repo s"
  using updateStreamStatus_fields [of L s] assms by simp_all

lemma updateMarkdown_panics:
  "\<not> 4 < length (SplitN (url s) CHR ''/'' 5) \<Longrightarrow>
   updateMarkdown w s = ([], Aborts (IndexPanics 4 (length (SplitN (url s) CHR ''/'' 5))), s)"
  by (simp add: updateMarkdown_def getRepo_panics)

lemma updateMarkdown_read_failed:
  assumes "getRepo w s = (t1, Returns r1, s1)" "osReadFile w = Inl err"
  shows "updateMarkdown w s
    = (t1 @ (case r1 of
               None \<Rightarrow> []
             | Some e \<Rightarrow> [Log (''error during repo clone: '' @ errorText e @ newline)])
          @ [ReadFile (indexFilePath s),
             Log (''error reading file: '' @ errorText err @ newline), Exit (- 1)],
       Aborts (Exits (- 1)), s1)"
  using getRepo_result_fields(1) [OF assms(1)]
  by (simp add: updateMarkdown_def assms(1) readFile_failed [OF assms(2)] logIfError_def
      split: option.splits)

lemma updateMarkdown_no_change:
  assumes "getRepo w s = (t1, Returns r1, s1)" "osReadFile w = Inr doc"
    "updateStreamStatus (toLower w) (s1\<lparr>indexMdText := doc\<rparr>)
       = (Some (NoChangeNeededError m), s3)"
  shows "updateMarkdown w s
    = (t1 @ (case r1 of
               None \<Rightarrow> []
             | Some e \<Rightarrow> [Log (''error during repo clone: '' @ errorText e @ newline)])
          @ [ReadFile (indexFilePath s)],
       Returns (Some (NoChangeNeededError m)), s3)"
  using getRepo_result_fields(1) [OF assms(1)]
  by (simp add: updateMarkdown_def assms(1) readFile_ok [OF assms(2)] assms(3) logIfError_def
      split: option.splits)

lemma updateMarkdown_changed:
  assumes "getRepo w s = (t1, Returns r1, s1)" "osReadFile w = Inr doc"
    "updateStreamStatus (toLower w) (s1\<lparr>indexMdText := doc\<rparr>) = (None, s3)"
  shows "updateMarkdown w s
    = (t1 @ (case r1 of
               None \<Rightarrow> []
             | Some e \<Rightarrow> [Log (''error during repo clone: '' @ errorText e @ newline)])
          @ [ReadFile (indexFilePath s), WriteFile (indexFilePath s) (indexMdText s3)]
          @ (case ioWriteFile w of
               None \<Rightarrow> []
             | Some e \<Rightarrow> [Log (''error writing file: '' @ errorText e @ newline)]),
       Returns None, s3)"
proof -
  have p1: "indexFilePath s1 = indexFilePath s" using getRepo_result_fields(1) [OF assms(1)] .
  have "indexFilePath s3 = indexFilePath (s1\<lparr>indexMdText := doc\<rparr>)"
    using updateStreamStatus_result_fields(1) [OF assms(3)] .
  then have p3: "indexFilePath s3 = indexFilePath s" using p1 by simp
  show ?thesis
    using p1 p3
    by (simp add: updateMarkdown_def assms(1) readFile_ok [OF assms(2)] assms(3) logIfError_def
        writefile_def split: option.splits)
qed

lemma updateRepo_held:
  assumes "repo s = Some r" "1 < length (Split (indexFilePath s) CHR ''/'')"
  shows "updateRepo w s
    = (Worktree #
         (case worktreeForAdd w of
            Some e \<Rightarrow> [Log (''error git adding file: error: '' @ errorText e @ newline)]
          | None \<Rightarrow>
              Add (Split (indexFilePath s) CHR ''/'' ! 1) #
              (case worktreeAdd w of
                 Some e \<Rightarrow> [Log (''error git adding file: error: '' @ errorText e @ newline)]
               | None \<Rightarrow> []))
       @ Worktree #
         (case worktreeForCommit w of
            Some e \<Rightarrow> [Log (''error making commit: '' @ errorText e @ newline)]
          | None \<Rightarrow>
              Commit (commitMessage s) #
              (case worktreeCommit w of
                 Some e \<Rightarrow> [Log (''error making commit: '' @ errorText e @ newline)]
               | None \<Rightarrow>
                   Head #
                   (case repoHead w of
                      Some e \<Rightarrow> [Log (''error making commit: '' @ errorText e @ newline)]
                    | None \<Rightarrow>
                        CommitObject #
                        (case commitObject w of
                           Inl e \<Rightarrow> [Log (''error making commit: '' @ errorText e @ newline)]
                         | Inr commit \<Rightarrow> [Log commit])))),
       Returns ())"
  by (simp add: updateRepo_def gitAdd_held [OF assms] gitCommit_held [OF assms(1)] logIfError_def
      split: option.splits sum.splits)

lemma pushRepo_held:
  assumes "repo s = Some r"
  shows "pushRepo w s
    = (Push ''origin'' #
         (case repoPush w of
            Some e \<Rightarrow> [Log (''error pushing repo to GitHub: '' @ errorText e @ newline)]
          | None \<Rightarrow> [Log (''remote repo updated. '' @ indexFilePath s)]),
       Returns ())"
  by (simp add: pushRepo_def gitPush_held [OF assms] logIfError_def split: option.splits)

lemma updateRepo_nil: "repo s = None \<Longrightarrow> updateRepo w s = ([], Aborts NilPanics)"
  by (simp add: updateRepo_def gitAdd_nil)

section \<open>The trace of one synchronisation cycle\<close>

text \<open>
  The whole effect trace of the handler on a recognized event, effect by effect, in
  each of the four ways a cycle can go once \<open>getRepo\<close> has returned: the document
  cannot be read; no change is needed; the change is published from a held
  repository; the change is written while no repository is held.
\<close>

lemma cycle_read_failed:
  assumes ev: "recognizedEvent w = Some (name, flag)"
    and g: "getRepo w (s\<lparr>streamer := name, online := flag\<rparr>) = (t1, Returns r1, s1)"
    and rd: "osReadFile w = Inl err"
  shows "eventsubStatus w s
    = ([Log ''verified signature on message'',
        Log ((if flag then ''got online event for: '' else ''got offline event for: '')
             @ name @ newline),
        HttpWriteHeader 200, HttpWrite ''ok'']
       @ t1
       @ (case r1 of
            None \<Rightarrow> []
          | Some e \<Rightarrow> [Log (''error during repo clone: '' @ errorText e @ newline)])
       @ [ReadFile (indexFilePath s),
          Log (''error reading file: '' @ errorText err @ newline), Exit (- 1)],
       Aborts (Exits (- 1)), s1)"
  using updateMarkdown_read_failed [OF g rd]
  by (simp add: eventsubStatus_recognized [OF ev] syncCycle_def)

lemma cycle_no_change:
  assumes ev: "recognizedEvent w = Some (name, flag)"
    and g: "getRepo w (s\<lparr>streamer := name, online := flag\<rparr>) = (t1, Returns r1, s1)"
    and rd: "osReadFile w = Inr doc"
    and u: "updateStreamStatus (toLower w) (s1\<lparr>indexMdText := doc\<rparr>)
              = (Some (NoChangeNeededError m), s3)"
  shows "eventsubStatus w s
    = ([Log ''verified signature on message'',
        Log ((if flag then ''got online event for: '' else ''got offline event for: '')
             @ name @ newline),
        HttpWriteHeader 200, HttpWrite ''ok'']
       @ t1
       @ (case r1 of
            None \<Rightarrow> []
          | Some e \<Rightarrow> [Log (''error during repo clone: '' @ errorText e @ newline)])
       @ [ReadFile (indexFilePath s),
          Log (''index.md doesn't need to be changed for '' @ name)],
       Returns (), s3)"
proof -
  have "streamer s3 = streamer (s1\<lparr>indexMdText := doc\<rparr>)"
    using updateStreamStatus_result_fields(2) [OF u] .
  then have "streamer s3 = name" using getRepo_result_fields(2) [OF g] by simp
  then show ?thesis
    using updateMarkdown_no_change [OF g rd u]
    by (simp add: eventsubStatus_recognized [OF ev] syncCycle_def)
qed

lemma cycle_changed_repository_held:
  assumes ev: "recognizedEvent w = Some (name, flag)"
    and g: "getRepo w (s\<lparr>streamer := name, online := flag\<rparr>) = (t1, Returns r1, s1)"
    and rd: "osReadFile w = Inr doc"
    and u: "updateStreamStatus (toLower w) (s1\<lparr>indexMdText := doc\<rparr>) = (None, s3)"
    and held: "repo s1 = Some r"
    and path: "1 < length (Split (indexFilePath s) CHR ''/'')"
  shows "eventsubStatus w s
    = ([Log ''verified signature on message'',
        Log ((if flag then ''got online event for: '' else ''got offline event for: '')
             @ name @ newline),
        HttpWriteHeader 200, HttpWrite ''ok'']
       @ t1
       @ (case r1 of
            None \<Rightarrow> []
          | Some e \<Rightarrow> [Log (''error during repo clone: '' @ errorText e @ newline)])
       @ [ReadFile (indexFilePath s), WriteFile (indexFilePath s) (indexMdText s3)]
       @ (case ioWriteFile w of
            None \<Rightarrow> []
          | Some e \<Rightarrow> [Log (''error writing file: '' @ errorText e @ newline)])
       @ Worktree #
         (case worktreeForAdd w of
            Some e \<Rightarrow> [Log (''error git adding file: error: '' @ errorText e @ newline)]
          | None \<Rightarrow>
              Add (Split (indexFilePath s) CHR ''/'' ! 1) #
              (case worktreeAdd w of
                 Some e \<Rightarrow> [Log (''error git adding file: error: '' @ errorText e @ newline)]
               | None \<Rightarrow> []))
       @ Worktree #
         (case worktreeForCommit w of
            Some e \<Rightarrow> [Log (''error making commit: '' @ errorText e @ newline)]
          | None \<Rightarrow>
              Commit (commitMessage (s\<lparr>streamer := name, online := flag\<rparr>)) #
              (case worktreeCommit w of
                 Some e \<Rightarrow> [Log (''error making commit: '' @ errorText e @ newline)]
               | None \<Rightarrow>
                   Head #
                   (case repoHead w of
                      Some e \<Rightarrow> [Log (''error making commit: '' @ errorText e @ newline)]
                    | None \<Rightarrow>
                        CommitObject #
                        (case commitObject w of
                           Inl e \<Rightarrow> [Log (''error making commit: '' @ errorText e @ newline)]
                         | Inr commit \<Rightarrow> [Log commit]))))
       @ Push ''origin'' #
         (case repoPush w of
            Some e \<Rightarrow> [Log (''error pushing repo to GitHub: '' @ errorText e @ newline)]
          | None \<Rightarrow> [Log (''remote repo updated. '' @ indexFilePath s)]),
       Returns (), s3)"
proof -
  let ?st = "s\<lparr>streamer := name, online := flag\<rparr>"
  let ?s2 = "s1\<lparr>indexMdText := doc\<rparr>"
  have f1: "indexFilePath s1 = indexFilePath s" "streamer s1 = name" "online s1 = flag"
    using getRepo_result_fields(1,2,3) [OF g] by simp_all
  have f3: "indexFilePath s3 = indexFilePath s" "streamer s3 = name" "online s3 = flag"
    "repo s3 = Some r"
    using updateStreamStatus_result_fields [OF u] f1 held by simp_all
  have cm: "commitMessage s3 = commitMessage ?st" using f3 by (simp add: commitMessage_def)
  have path3: "1 < length (Split (indexFilePath s3) CHR ''/'')" using path f3 by simp
  note ur = updateRepo_held [OF f3(4) path3, of w, unfolded f3(1) cm]
  note pr = pushRepo_held [OF f3(4), of w, unfolded f3(1)]
  show ?thesis
    using updateMarkdown_changed [OF g rd u]
    by (simp add: eventsubStatus_recognized [OF ev] syncCycle_def ur pr)
qed

lemma cycle_changed_without_repository:
  assumes ev: "recognizedEvent w = Some (name, flag)"
    and g: "getRepo w (s\<lparr>streamer := name, online := flag\<rparr>) = (t1, Returns r1, s1)"
    and rd: "osReadFile w = Inr doc"
    and u: "updateStreamStatus (toLower w) (s1\<lparr>indexMdText := doc\<rparr>) = (None, s3)"
    and nil: "repo s1 = None"
  shows "eventsubStatus w s
    = ([Log ''verified signature on message'',
        Log ((if flag then ''got online event for: '' else ''got offline event for: '')
             @ name @ newline),
        HttpWriteHeader 200, HttpWrite ''ok'']
       @ t1
       @ (case r1 of
            None \<Rightarrow> []
          | Some e \<Rightarrow> [Log (''error during repo clone: '' @ errorText e @ newline)])
       @ [ReadFile (indexFilePath s), WriteFile (indexFilePath s) (indexMdText s3)]
       @ (case ioWriteFile w of
            None \<Rightarrow> []
          | Some e \<Rightarrow> [Log (''error writing file: '' @ errorText e @ newline)]),
       Aborts NilPanics, s3)"
proof -
  have "repo s3 = None" using updateStreamStatus_result_fields(4) [OF u] nil by simp
  then show ?thesis
    using updateMarkdown_changed [OF g rd u]
    by (simp add: eventsubStatus_recognized [OF ev] syncCycle_def updateRepo_nil)
qed

lemma updateMarkdown_read_ok:
  assumes "osReadFile w = Inr doc"
  shows "fst (snd (updateMarkdown w s)) \<noteq> Aborts (Exits c)"
proof (cases "4 < length (SplitN (url s) CHR ''/'' 5)")
  case False
  then show ?thesis by (simp add: updateMarkdown_panics)
next
  case True
  then obtain t1 r1 s1 where g: "getRepo w s = (t1, Returns r1, s1)"
    by (rule getRepo_cases [of s w])
  obtain r3 s3 where u: "updateStreamStatus (toLower w) (s1\<lparr>indexMdText := doc\<rparr>) = (r3, s3)"
    by (cases "updateStreamStatus (toLower w) (s1\<lparr>indexMdText := doc\<rparr>)")
  have "r3 = None \<or> r3 = Some (noChangeNeeded (s1\<lparr>indexMdText := doc\<rparr>))"
    using updateStreamStatus_error [of "toLower w" "s1\<lparr>indexMdText := doc\<rparr>"] u by simp
  then show ?thesis
  proof
    assume "r3 = None"
    then show ?thesis using updateMarkdown_changed [OF g assms] u by simp
  next
    assume "r3 = Some (noChangeNeeded (s1\<lparr>indexMdText := doc\<rparr>))"
    then show ?thesis
      using updateMarkdown_no_change [OF g assms] u by (simp add: noChangeNeeded_def)
  qed
qed

lemma syncCycle_read_ok:
  assumes "osReadFile w = Inr doc"
  shows "fst (snd (syncCycle w s)) \<noteq> Aborts (Exits c)"
proof -
  obtain t1 o1 s1 where m: "updateMarkdown w s = (t1, o1, s1)" by (cases "updateMarkdown w s")
  have o1: "o1 \<noteq> Aborts (Exits c)" using updateMarkdown_read_ok [OF assms, of s c] m by simp
  obtain t2 o2 where r: "updateRepo w s1 = (t2, o2)" by (cases "updateRepo w s1")
  have o2: "o2 \<noteq> Aborts (Exits c)" using updateRepo_no_exit [of w s1 c] r by simp
  obtain t3 o3 where p: "pushRepo w s1 = (t3, o3)" by (cases "pushRepo w s1")
  have o3: "o3 \<noteq> Aborts (Exits c)" using pushRepo_no_exit [of w s1 c] p by simp
  show ?thesis using o1 o2 o3
    by (auto simp: syncCycle_def m r p split: outcome.splits option.splits)
qed

lemma syncCycle_panics:
  "\<not> 4 < length (SplitN (url s) CHR ''/'' 5) \<Longrightarrow>
   fst (snd (syncCycle w s)) = Aborts (IndexPanics 4 (length (SplitN (url s) CHR ''/'' 5)))"
  by (simp add: syncCycle_def updateMarkdown_panics)

section \<open>The status updater: claims\<close>


lemma asciiToLower_FooBar: "asciiToLower ''FooBar'' = ''foobar''"
  by (simp add: asciiToLower_def lowerByte_def)

text \<open>
  Claim C1. When the entity is to be marked online and the document already contains
  the online row of the entity, with the name as received or lower-cased,
  \<open>updateStreamStatus\<close> returns a \<open>NoChangeNeededError\<close> and the state, with the
  document text, is left as it was; and the same for marking offline when an offline
  row is already there.
\<close>

theorem no_change_when_already_in_state:
  "(online s \<and> (Contains (indexMdText s) (onlineRow (streamer s))
        \<or> Contains (indexMdText s) (onlineRow (ToLower (streamer s))))
      \<longrightarrow> updateStreamStatus ToLower s = (Some (noChangeNeeded s), s))
   \<and> (\<not> online s \<and> (Contains (indexMdText s) (offlineRow (streamer s))
        \<or> Contains (indexMdText s) (offlineRow (ToLower (streamer s))))
      \<longrightarrow> updateStreamStatus ToLower s = (Some (noChangeNeeded s), s))"
  by (simp add: updateStreamStatus_def Let_def)

theorem no_change_when_already_in_state_witness:
  "Contains (''| '' @ onlineRow ''foobar'' @ '' |'') (onlineRow (asciiToLower ''FooBar''))
   \<and> updateStreamStatus asciiToLower
        (exampleRepo ''FooBar'' True (''| '' @ onlineRow ''foobar'' @ '' |''))
      = (Some (NoChangeNeededError ''no change needed for: FooBar, online: true''),
         exampleRepo ''FooBar'' True (''| '' @ onlineRow ''foobar'' @ '' |''))
   \<and> Contains (''| '' @ offlineRow ''FooBar'' @ '' |'') (offlineRow ''FooBar'')
   \<and> updateStreamStatus asciiToLower
        (exampleRepo ''FooBar'' False (''| '' @ offlineRow ''FooBar'' @ '' |''))
      = (Some (NoChangeNeededError ''no change needed for: FooBar, online: false''),
         exampleRepo ''FooBar'' False (''| '' @ offlineRow ''FooBar'' @ '' |''))"
proof -
  let ?on = "exampleRepo ''FooBar'' True (''| '' @ onlineRow ''foobar'' @ '' |'')"
  let ?off = "exampleRepo ''FooBar'' False (''| '' @ offlineRow ''FooBar'' @ '' |'')"
  have h1: "Contains (''| '' @ onlineRow ''foobar'' @ '' |'') (onlineRow (asciiToLower ''FooBar''))"
    by (simp add: asciiToLower_FooBar onlineRow_def greenCircle_def)
  have h2: "Contains (''| '' @ offlineRow ''FooBar'' @ '' |'') (offlineRow ''FooBar'')"
    by (simp add: offlineRow_def)
  have n1: "noChangeNeeded ?on
      = NoChangeNeededError ''no change needed for: FooBar, online: true''"
    by (simp add: noChangeNeeded_def exampleRepo_def fmtBool_def)
  have n2: "noChangeNeeded ?off
      = NoChangeNeededError ''no change needed for: FooBar, online: false''"
    by (simp add: noChangeNeeded_def exampleRepo_def fmtBool_def)
  have f1: "online ?on" "streamer ?on = ''FooBar''"
    "indexMdText ?on = ''| '' @ onlineRow ''foobar'' @ '' |''"
    by (simp_all add: exampleRepo_def)
  have f2: "\<not> online ?off" "streamer ?off = ''FooBar''"
    "indexMdText ?off = ''| '' @ offlineRow ''FooBar'' @ '' |''"
    by (simp_all add: exampleRepo_def)
  have r1: "updateStreamStatus asciiToLower ?on = (Some (noChangeNeeded ?on), ?on)"
    using no_change_when_already_in_state [of ?on asciiToLower] h1 f1 by simp
  have r2: "updateStreamStatus asciiToLower ?off = (Some (noChangeNeeded ?off), ?off)"
    using no_change_when_already_in_state [of ?off asciiToLower] h2 f2 by simp
  show ?thesis using h1 h2 r1 r2 n1 n2 by simp
qed




text \<open>
  The condition on the name is needed: for the name below, which contains the bytes
  of the green circle, the document has exactly one status row, an offline row with
  the name as received, both events succeed, and the text is not restored, because
  the online row written by the first event overlaps an earlier occurrence of the
  same text.
\<close>

lemma roundtrip_needs_plain_name:
  "statusRows asciiToLower oddName (onlineRow ''x'' @ offlineRow oddName) = [length (onlineRow ''x'')]
   \<and> fst (onlineThenOffline asciiToLower
          (exampleRepo oddName False (onlineRow ''x'' @ offlineRow oddName))) = None
   \<and> fst (snd (onlineThenOffline asciiToLower
          (exampleRepo oddName False (onlineRow ''x'' @ offlineRow oddName)))) = None
   \<and> indexMdText (snd (snd (onlineThenOffline asciiToLower
          (exampleRepo oddName False (onlineRow ''x'' @ offlineRow oddName)))))
       \<noteq> onlineRow ''x'' @ offlineRow oddName"
  by code_simp

text \<open>
  So is the condition on the lower-cased name, for a lower-casing that may produce
  the byte: here the online row that the first event writes completes an offline row
  of the lower-cased name, and the offline event returns \<open>NoChangeNeededError\<close>.
  (\<open>strings.ToLower\<close> does not produce the byte from a name without it.)
\<close>

lemma roundtrip_needs_plain_lower:
  "statusRows oddLower ''X'' (''&nbsp; | `'' @ offlineRow ''X'') = [length ''&nbsp; | `'']
   \<and> CHR 0xF0 \<notin> set ''X''
   \<and> fst (snd (onlineThenOffline oddLower
          (exampleRepo ''X'' False (''&nbsp; | `'' @ offlineRow ''X''))))
      = Some (NoChangeNeededError ''no change needed for: X, online: false'')"
  by code_simp

text \<open>
  Claim C4. The claim holds when the name as received occurs nowhere in the
  document; the code does not do what it says otherwise. For the search text,
  \<open>updateStreamStatus\<close> tests whether the bare name occurs anywhere in the document
  (source lines 168 and 183), although for \<open>NoChangeNeeded\<close> it tests the rows, in both
  case forms (lines 175 and 190). In the documents below the one status row of
  \<open>FooBar\<close> is written in lower case and the name occurs in its original case in a
  link: in both directions the call returns \<open>nil\<close> and the row is left as it was.
\<close>

theorem lowercase_row_left_stale:
  "statusRows asciiToLower ''FooBar'' (offlineRow ''foobar'' @ '' | https://twitch.tv/FooBar'') = [0]
   \<and> updateStreamStatus asciiToLower
        (exampleRepo ''FooBar'' True (offlineRow ''foobar'' @ '' | https://twitch.tv/FooBar''))
      = (None, exampleRepo ''FooBar'' True (offlineRow ''foobar'' @ '' | https://twitch.tv/FooBar''))
   \<and> statusRows asciiToLower ''FooBar'' (onlineRow ''foobar'' @ '' | https://twitch.tv/FooBar'') = [0]
   \<and> updateStreamStatus asciiToLower
        (exampleRepo ''FooBar'' False (onlineRow ''foobar'' @ '' | https://twitch.tv/FooBar''))
      = (None, exampleRepo ''FooBar'' False (onlineRow ''foobar'' @ '' | https://twitch.tv/FooBar''))"
  by code_simp

text \<open>
  What the fall-back does achieve: when the name as received occurs nowhere in the
  document and the one status row of the entity is written with the lower-cased
  name, that row is found and replaced, in both directions, the new row carrying the
  name as received.
\<close>

lemma lowercase_row_found_when_name_absent:
  assumes absent: "\<not> Contains (indexMdText s) (streamer s)"
    and one: "statusRows ToLower (streamer s) (indexMdText s) = [length a]"
  shows "(online s \<and> indexMdText s = a @ offlineRow (ToLower (streamer s)) @ b
            \<longrightarrow> updateStreamStatus ToLower s
                  = (None, s\<lparr>indexMdText := a @ onlineRow (streamer s) @ b\<rparr>))
       \<and> (\<not> online s \<and> indexMdText s = a @ onlineRow (ToLower (streamer s)) @ b
            \<longrightarrow> updateStreamStatus ToLower s
                  = (None, s\<lparr>indexMdText := a @ offlineRow (streamer s) @ b\<rparr>))"
  using online_step_lowercase [of s a ToLower b] offline_step_lowercase [of s a ToLower b]
    absent one by blast

lemma lowercase_row_found_example:
  "\<not> Contains (''| '' @ offlineRow ''foobar'' @ '' |'') ''FooBar''
   \<and> statusRows asciiToLower ''FooBar'' (''| '' @ offlineRow ''foobar'' @ '' |'') = [length ''| '']
   \<and> updateStreamStatus asciiToLower
        (exampleRepo ''FooBar'' True (''| '' @ offlineRow ''foobar'' @ '' |''))
      = (None, exampleRepo ''FooBar'' True (''| '' @ onlineRow ''FooBar'' @ '' |''))
   \<and> \<not> Contains (''| '' @ onlineRow ''foobar'' @ '' |'') ''FooBar''
   \<and> statusRows asciiToLower ''FooBar'' (''| '' @ onlineRow ''foobar'' @ '' |'') = [length ''| '']
   \<and> updateStreamStatus asciiToLower
        (exampleRepo ''FooBar'' False (''| '' @ onlineRow ''foobar'' @ '' |''))
      = (None, exampleRepo ''FooBar'' False (''| '' @ offlineRow ''FooBar'' @ '' |''))"
proof -
  let ?on = "exampleRepo ''FooBar'' True (''| '' @ offlineRow ''foobar'' @ '' |'')"
  let ?off = "exampleRepo ''FooBar'' False (''| '' @ onlineRow ''foobar'' @ '' |'')"
  have low: "asciiToLower ''FooBar'' = ''foobar''" by code_simp
  have a1: "\<not> Contains (''| '' @ offlineRow ''foobar'' @ '' |'') ''FooBar''" by code_simp
  have o1: "statusRows asciiToLower ''FooBar'' (''| '' @ offlineRow ''foobar'' @ '' |'')
      = [length ''| '']" by code_simp
  have a2: "\<not> Contains (''| '' @ onlineRow ''foobar'' @ '' |'') ''FooBar''" by code_simp
  have o2: "statusRows asciiToLower ''FooBar'' (''| '' @ onlineRow ''foobar'' @ '' |'')
      = [length ''| '']" by code_simp
  have r1: "updateStreamStatus asciiToLower ?on
      = (None, ?on\<lparr>indexMdText := ''| '' @ onlineRow ''FooBar'' @ '' |''\<rparr>)"
    using lowercase_row_found_when_name_absent [of ?on asciiToLower "''| ''" "'' |''"] a1 o1 low
    by (simp add: exampleRepo_def)
  have r2: "updateStreamStatus asciiToLower ?off
      = (None, ?off\<lparr>indexMdText := ''| '' @ offlineRow ''FooBar'' @ '' |''\<rparr>)"
    using lowercase_row_found_when_name_absent [of ?off asciiToLower "''| ''" "'' |''"] a2 o2 low
    by (simp add: exampleRepo_def)
  show ?thesis using a1 o1 a2 o2 r1 r2 by (simp add: exampleRepo_def)
qed

text \<open>
  Claim C5. When the document contains none of the four status rows of the entity,
  \<open>updateStreamStatus\<close> returns \<open>nil\<close> (not \<open>NoChangeNeededError\<close>) and the state,
  with the document text, is unchanged, whichever way the entity is to be marked.
\<close>

theorem absent_entity_unchanged:
  assumes "\<not> Contains (indexMdText s) (onlineRow (streamer s))"
    "\<not> Contains (indexMdText s) (onlineRow (ToLower (streamer s)))"
    "\<not> Contains (indexMdText s) (offlineRow (streamer s))"
    "\<not> Contains (indexMdText s) (offlineRow (ToLower (streamer s)))"
  shows "updateStreamStatus ToLower s = (None, s)"
  using assms by (simp add: updateStreamStatus_def Let_def Replace1_absent)

theorem absent_entity_unchanged_witness:
  "\<not> Contains ''# Streamers'' (onlineRow ''acme'')
   \<and> \<not> Contains ''# Streamers'' (onlineRow (asciiToLower ''acme''))
   \<and> \<not> Contains ''# Streamers'' (offlineRow ''acme'')
   \<and> \<not> Contains ''# Streamers'' (offlineRow (asciiToLower ''acme''))
   \<and> updateStreamStatus asciiToLower (exampleRepo ''acme'' True ''# Streamers'')
      = (None, exampleRepo ''acme'' True ''# Streamers'')"
proof -
  let ?s = "exampleRepo ''acme'' True ''# Streamers''"
  have h: "\<not> Contains ''# Streamers'' (onlineRow ''acme'')"
    "\<not> Contains ''# Streamers'' (onlineRow (asciiToLower ''acme''))"
    "\<not> Contains ''# Streamers'' (offlineRow ''acme'')"
    "\<not> Contains ''# Streamers'' (offlineRow (asciiToLower ''acme''))"
    by code_simp+
  have f: "indexMdText ?s = ''# Streamers''" "streamer ?s = ''acme''"
    by (simp_all add: exampleRepo_def)
  have "updateStreamStatus asciiToLower ?s = (None, ?s)"
    using absent_entity_unchanged [of ?s asciiToLower] h f by simp
  with h show ?thesis by simp
qed

section \<open>The handler and main: claims\<close>

text \<open>
  A failure to read the document does end the process: \<open>updateMarkdown\<close> calls
  \<open>os.Exit(-1)\<close>. Here the request is an authentic online event, the repository is
  opened and pulled, and the file is missing; the acknowledgment has been written
  and the last effect is the exit.
\<close>

theorem read_failure_ends_process_counterexample:
  "eventsubStatus
     ((exampleWorld (onlineEvent ''acme'') [])\<lparr>osReadFile := Inl noIndexFile\<rparr>)
     (exampleRepo [] False [])
   = ([Log ''verified signature on message'', Log (''got online event for: acme'' @ newline),
       HttpWriteHeader 200, HttpWrite ''ok'',
       PlainClone ''infosecstreams.github.io''
         ''https://github.com/infosecstreams/infosecstreams.github.io'',
       PlainOpen ''infosecstreams.github.io'', Log ''Doing git pull'', Worktree,
       Pull True ''HEAD'' ''origin'', ReadFile ''infosecstreams.github.io/index.md'',
       Log (''error reading file: open infosecstreams.github.io/index.md: no such file or directory''
            @ newline),
       Exit (- 1)],
      Aborts (Exits (- 1)),
      (exampleRepo ''acme'' True [])\<lparr>repo := Some (Repository ''infosecstreams.github.io'')\<rparr>)"
  by code_simp

text \<open>
  Claim C3, amended. Missing startup configuration is not the only fatal error. The
  handler ends the process, with status \<open>-1\<close>, if and only if the request is a
  recognized online or offline event, \<open>getRepo\<close> gets past its index into the URL,
  and reading the document fails; no other failure inside the handler ends the
  process (a panic of the handler is not an exit). When it does end the process, the
  acknowledgment has been written, \<open>getRepo\<close> has run and published nothing, the
  read has been tried, and the exit follows the log of the read error: nothing is
  written, staged, committed or pushed.
\<close>

theorem only_read_failure_ends_process:
  "(fst (snd (eventsubStatus w s)) = Aborts (Exits c)
      \<longleftrightarrow> c = - 1 \<and> recognizedEvent w \<noteq> None \<and> 4 < length (SplitN (url s) CHR ''/'' 5)
          \<and> isl (osReadFile w))
   \<and> (\<forall>name flag t1 r1 s1 err.
        recognizedEvent w = Some (name, flag)
        \<and> getRepo w (s\<lparr>streamer := name, online := flag\<rparr>) = (t1, Returns r1, s1)
        \<and> osReadFile w = Inl err
        \<longrightarrow> filter isPublishEffect t1 = []
            \<and> eventsubStatus w s
              = ([Log ''verified signature on message'',
                  Log ((if flag then ''got online event for: '' else ''got offline event for: '')
                       @ name @ newline),
                  HttpWriteHeader 200, HttpWrite ''ok'']
                 @ t1
                 @ (case r1 of
                      None \<Rightarrow> []
                    | Some e \<Rightarrow> [Log (''error during repo clone: '' @ errorText e @ newline)])
                 @ [ReadFile (indexFilePath s),
                    Log (''error reading file: '' @ errorText err @ newline), Exit (- 1)],
                 Aborts (Exits (- 1)), s1))"
proof (intro conjI allI impI)
  show "fst (snd (eventsubStatus w s)) = Aborts (Exits c)
      \<longleftrightarrow> c = - 1 \<and> recognizedEvent w \<noteq> None \<and> 4 < length (SplitN (url s) CHR ''/'' 5)
          \<and> isl (osReadFile w)"
  proof (cases "recognizedEvent w")
    case None
    then show ?thesis using eventsubStatus_unrecognized [of w s] by simp
  next
    case (Some ev)
    obtain name flag where ev: "ev = (name, flag)" by (cases ev)
    let ?st = "s\<lparr>streamer := name, online := flag\<rparr>"
    have h: "fst (snd (eventsubStatus w s)) = fst (snd (syncCycle w ?st))"
      using eventsubStatus_recognized [of w name flag s] Some ev by simp
    show ?thesis
    proof (cases "4 < length (SplitN (url s) CHR ''/'' 5)")
      case False
      then show ?thesis using h syncCycle_panics [of ?st w] by simp
    next
      case True
      then have "4 < length (SplitN (url ?st) CHR ''/'' 5)" by simp
      then obtain t1 r1 s1 where g: "getRepo w ?st = (t1, Returns r1, s1)"
        by (rule getRepo_cases [of ?st w])
      show ?thesis
      proof (cases "osReadFile w")
        case (Inl err)
        have "recognizedEvent w = Some (name, flag)" using Some ev by simp
        from cycle_read_failed [OF this g Inl]
        have "fst (snd (eventsubStatus w s)) = Aborts (Exits (- 1))" by simp
        then show ?thesis using True Some Inl by auto
      next
        case (Inr doc)
        then show ?thesis using h syncCycle_read_ok [of w doc ?st] by simp
      qed
    qed
  qed
next
  fix name flag t1 r1 s1 err
  assume a: "recognizedEvent w = Some (name, flag)
        \<and> getRepo w (s\<lparr>streamer := name, online := flag\<rparr>) = (t1, Returns r1, s1)
        \<and> osReadFile w = Inl err"
  then show "filter isPublishEffect t1 = []" using getRepo_result_fields(4) by blast
  from a show "eventsubStatus w s
              = ([Log ''verified signature on message'',
                  Log ((if flag then ''got online event for: '' else ''got offline event for: '')
                       @ name @ newline),
                  HttpWriteHeader 200, HttpWrite ''ok'']
                 @ t1
                 @ (case r1 of
                      None \<Rightarrow> []
                    | Some e \<Rightarrow> [Log (''error during repo clone: '' @ errorText e @ newline)])
                 @ [ReadFile (indexFilePath s),
                    Log (''error reading file: '' @ errorText err @ newline), Exit (- 1)],
                 Aborts (Exits (- 1)), s1)"
    using cycle_read_failed [of w name flag s t1 r1 s1 err] by blast
qed

theorem only_read_failure_ends_process_witness:
  "fst (snd (eventsubStatus
     ((exampleWorld (offlineEvent ''acme'') [])\<lparr>osReadFile := Inl noIndexFile\<rparr>)
     (exampleRepo [] False []))) = Aborts (Exits (- 1))
   \<and> fst (snd (eventsubStatus
     ((exampleWorld (offlineEvent ''acme'') (onlineRow ''acme''))
        \<lparr>repoPush := Some (OtherError ''authentication required'')\<rparr>)
     (exampleRepo [] False []))) \<noteq> Aborts (Exits (- 1))
   \<and> fst (eventsubStatus
     ((cloneFailsWorld (offlineEvent ''acme'') [])\<lparr>osReadFile := Inl noIndexFile\<rparr>)
     (exampleRepo [] False []))
     = [Log ''verified signature on message'', Log (''got offline event for: acme'' @ newline),
        HttpWriteHeader 200, HttpWrite ''ok'',
        PlainClone ''infosecstreams.github.io''
          ''https://github.com/infosecstreams/infosecstreams.github.io'',
        Log (''error during repo clone: authentication required'' @ newline),
        ReadFile ''infosecstreams.github.io/index.md'',
        Log (''error reading file: open infosecstreams.github.io/index.md: no such file or directory''
             @ newline),
        Exit (- 1)]"
proof -
  let ?w1 = "(exampleWorld (offlineEvent ''acme'') [])\<lparr>osReadFile := Inl noIndexFile\<rparr>"
  let ?w2 = "(exampleWorld (offlineEvent ''acme'') (onlineRow ''acme''))
        \<lparr>repoPush := Some (OtherError ''authentication required'')\<rparr>"
  let ?w3 = "(cloneFailsWorld (offlineEvent ''acme'') [])\<lparr>osReadFile := Inl noIndexFile\<rparr>"
  let ?s = "exampleRepo [] False []"
  let ?st = "?s\<lparr>streamer := ''acme'', online := False\<rparr>"
  have a: "recognizedEvent ?w1 \<noteq> None" by code_simp
  have b: "4 < length (SplitN (url ?s) CHR ''/'' 5)" by code_simp
  have c: "isl (osReadFile ?w1)" by (simp add: exampleWorld_def)
  have d: "\<not> isl (osReadFile ?w2)" by (simp add: exampleWorld_def)
  have ev: "recognizedEvent ?w3 = Some (''acme'', False)" by code_simp
  have g: "getRepo ?w3 ?st
      = ([PlainClone ''infosecstreams.github.io''
            ''https://github.com/infosecstreams/infosecstreams.github.io''],
         Returns (Some (OtherError ''authentication required'')), ?st)"
    by code_simp
  have rd: "osReadFile ?w3 = Inl noIndexFile" by (simp add: cloneFailsWorld_def)
  have p: "indexFilePath ?s = ''infosecstreams.github.io/index.md''"
    by (simp add: exampleRepo_def)
  have 1: "fst (snd (eventsubStatus ?w1 ?s)) = Aborts (Exits (- 1))"
    using only_read_failure_ends_process [of ?w1 ?s "- 1"] a b c by blast
  have 2: "fst (snd (eventsubStatus ?w2 ?s)) \<noteq> Aborts (Exits (- 1))"
    using only_read_failure_ends_process [of ?w2 ?s "- 1"] d by blast
  have "eventsubStatus ?w3 ?s
      = ([Log ''verified signature on message'',
          Log ((if False then ''got online event for: '' else ''got offline event for: '')
               @ ''acme'' @ newline),
          HttpWriteHeader 200, HttpWrite ''ok'']
         @ [PlainClone ''infosecstreams.github.io''
              ''https://github.com/infosecstreams/infosecstreams.github.io'']
         @ (case Some (OtherError ''authentication required'') of
              None \<Rightarrow> []
            | Some e \<Rightarrow> [Log (''error during repo clone: '' @ errorText e @ newline)])
         @ [ReadFile (indexFilePath ?s),
            Log (''error reading file: '' @ errorText noIndexFile @ newline), Exit (- 1)],
         Aborts (Exits (- 1)), ?st)"
    using only_read_failure_ends_process [of ?w3 ?s "- 1"] ev g rd by blast
  then have 3: "fst (eventsubStatus ?w3 ?s)
     = [Log ''verified signature on message'', Log (''got offline event for: acme'' @ newline),
        HttpWriteHeader 200, HttpWrite ''ok'',
        PlainClone ''infosecstreams.github.io''
          ''https://github.com/infosecstreams/infosecstreams.github.io'',
        Log (''error during repo clone: authentication required'' @ newline),
        ReadFile ''infosecstreams.github.io/index.md'',
        Log (''error reading file: open infosecstreams.github.io/index.md: no such file or directory''
             @ newline),
        Exit (- 1)]"
    by (simp add: p noIndexFile_def)
  show ?thesis using 1 2 3 by simp
qed

text \<open>
  Claim C6. When the body is read, the signature verifies and the decoded body has
  a non-empty challenge, the handler writes exactly the challenge to the response
  and returns: besides the log line there is no other effect, so no clone, read,
  write, commit or push, and the repository state is untouched.
\<close>

theorem challenge_echoed:
  assumes "readAll w = Inr body" "verify w body" "jsonDecode w body = Inr vals"
    "Challenge vals \<noteq> []"
  shows "eventsubStatus w s
    = ([Log ''verified signature on message'', HttpWrite (Challenge vals)], Returns (), s)"
  using assms by (simp add: eventsubStatus_def)

theorem challenge_echoed_witness:
  "readAll (exampleWorld (challengeRequest ''xyz123'') []) = Inr ''{}''
   \<and> verify (exampleWorld (challengeRequest ''xyz123'') []) ''{}''
   \<and> jsonDecode (exampleWorld (challengeRequest ''xyz123'') []) ''{}''
       = Inr (challengeRequest ''xyz123'')
   \<and> Challenge (challengeRequest ''xyz123'') \<noteq> []
   \<and> eventsubStatus (exampleWorld (challengeRequest ''xyz123'') []) (exampleRepo [] False [])
       = ([Log ''verified signature on message'', HttpWrite ''xyz123''], Returns (),
          exampleRepo [] False [])"
proof -
  let ?w = "exampleWorld (challengeRequest ''xyz123'') []"
  have a: "readAll ?w = Inr ''{}''" by (simp add: exampleWorld_def)
  have b: "verify ?w ''{}''" by (simp add: exampleWorld_def)
  have c: "jsonDecode ?w ''{}'' = Inr (challengeRequest ''xyz123'')"
    by (simp add: exampleWorld_def)
  have d: "Challenge (challengeRequest ''xyz123'') \<noteq> []" by (simp add: challengeRequest_def)
  have e: "Challenge (challengeRequest ''xyz123'') = ''xyz123''" by (simp add: challengeRequest_def)
  show ?thesis
    using challenge_echoed [OF a b c d, of "exampleRepo [] False []"] a b c d e by simp
qed

text \<open>
  Claim C7. When the signature does not verify, the handler logs and returns before
  decoding: nothing is written to the HTTP response, there is no file or repository
  effect, and the state, with the document, is unchanged, whatever the decoder would
  have returned.
\<close>

theorem invalid_signature_dropped:
  assumes "readAll w = Inr body" "\<not> verify w body"
  shows "eventsubStatus w s = ([Log ''invalid signature on message''], Returns (), s)"
  using assms by (simp add: eventsubStatus_def)

theorem invalid_signature_dropped_witness:
  "readAll ((exampleWorld (onlineEvent ''acme'') [])\<lparr>verify := (\<lambda>body. False)\<rparr>) = Inr ''{}''
   \<and> \<not> verify ((exampleWorld (onlineEvent ''acme'') [])\<lparr>verify := (\<lambda>body. False)\<rparr>) ''{}''
   \<and> eventsubStatus ((exampleWorld (onlineEvent ''acme'') [])\<lparr>verify := (\<lambda>body. False)\<rparr>)
        (exampleRepo [] False [])
       = ([Log ''invalid signature on message''], Returns (), exampleRepo [] False [])"
proof -
  let ?w = "(exampleWorld (onlineEvent ''acme'') [])\<lparr>verify := (\<lambda>body. False)\<rparr>"
  have a: "readAll ?w = Inr ''{}''" by (simp add: exampleWorld_def)
  have b: "\<not> verify ?w ''{}''" by simp
  show ?thesis
    using invalid_signature_dropped [OF a b, of "exampleRepo [] False []"] a b by simp
qed

text \<open>
  Claim C8. From a held repository the cycle goes as the claim says (lemmas
  \<open>cycle_no_change\<close> and \<open>cycle_changed_repository_held\<close> above: nothing after the read
  when no change is needed; otherwise the write, the staging, the commit and the
  push, in that order and whatever each of them returns, with nothing else in
  between or after but the log lines). The code misses the case in which no
  repository is held: \<open>updateMarkdown\<close> only logs the error of \<open>getRepo\<close> and goes on,
  so on a process whose \<open>s.repo\<close> is still \<open>nil\<close> the document is written and
  \<open>gitAdd\<close> then panics on \<open>s.repo.Worktree()\<close>. Below, the first request of a
  process is an online event, the clone fails and the document is on disk: the new
  text is written, and nothing is staged, committed or pushed.
\<close>

theorem sync_without_repository_panics_after_write:
  "eventsubStatus (cloneFailsWorld (onlineEvent ''acme'') (''| '' @ offlineRow ''acme'' @ '' |''))
     (exampleRepo [] False [])
   = ([Log ''verified signature on message'', Log (''got online event for: acme'' @ newline),
       HttpWriteHeader 200, HttpWrite ''ok'',
       PlainClone ''infosecstreams.github.io''
         ''https://github.com/infosecstreams/infosecstreams.github.io'',
       Log (''error during repo clone: authentication required'' @ newline),
       ReadFile ''infosecstreams.github.io/index.md'',
       WriteFile ''infosecstreams.github.io/index.md'' (''| '' @ onlineRow ''acme'' @ '' |'')],
      Aborts NilPanics,
      exampleRepo ''acme'' True (''| '' @ onlineRow ''acme'' @ '' |''))"
  by code_simp

text \<open>
  The same event on a directory that already holds the repository, with a failing
  write, a failing staging and a failing push: each failure is logged and the next
  step runs.
\<close>

lemma cycle_with_failing_steps_example:
  "eventsubStatus
     ((exampleWorld (onlineEvent ''acme'') (''| '' @ offlineRow ''acme'' @ '' |''))
        \<lparr>ioWriteFile := Some (OtherError ''disk full''),
         worktreeAdd := Some (OtherError ''entry not found''),
         repoPush := Some (OtherError ''authentication required'')\<rparr>)
     (exampleRepo [] False [])
   = ([Log ''verified signature on message'', Log (''got online event for: acme'' @ newline),
       HttpWriteHeader 200, HttpWrite ''ok'',
       PlainClone ''infosecstreams.github.io''
         ''https://github.com/infosecstreams/infosecstreams.github.io'',
       PlainOpen ''infosecstreams.github.io'', Log ''Doing git pull'', Worktree,
       Pull True ''HEAD'' ''origin'', ReadFile ''infosecstreams.github.io/index.md'',
       WriteFile ''infosecstreams.github.io/index.md'' (''| '' @ onlineRow ''acme'' @ '' |''),
       Log (''error writing file: disk full'' @ newline),
       Worktree, Add ''index.md'',
       Log (''error git adding file: error: entry not found'' @ newline),
       Worktree, Commit (greenCircle @ '' acme has gone online! [no ci]''), Head, CommitObject,
       Log ''commit 0a1b2c'',
       Push ''origin'', Log (''error pushing repo to GitHub: authentication required'' @ newline)],
      Returns (),
      (exampleRepo ''acme'' True (''| '' @ onlineRow ''acme'' @ '' |''))
        \<lparr>repo := Some (Repository ''infosecstreams.github.io'')\<rparr>)"
  by code_simp

text \<open>
  Claim C9. \<open>getRepo\<close> decides on the text of the clone error: it falls back when the
  text contains \<open>exists\<close>, where its comment says "check if the error is that the
  repo exists" (go-git's error for that reads "repository already exists"). A clone
  failure of another kind whose text contains the word is therefore not returned:
  below, for go-git's "remote already exists" and for a file-system error, the local
  repository is opened and pulled and \<open>getRepo\<close> returns \<open>nil\<close>.
\<close>

theorem getRepo_falls_back_on_any_exists_text:
  "getRepo ((exampleWorld (onlineEvent ''acme'') [])
              \<lparr>plainClone := Inl (OtherError ''remote already exists'')\<rparr>)
     (exampleRepo [] False [])
   = ([PlainClone ''infosecstreams.github.io''
         ''https://github.com/infosecstreams/infosecstreams.github.io'',
       PlainOpen ''infosecstreams.github.io'', Log ''Doing git pull'', Worktree,
       Pull True ''HEAD'' ''origin''],
      Returns None,
      (exampleRepo [] False [])\<lparr>repo := Some (Repository ''infosecstreams.github.io'')\<rparr>)
   \<and> getRepo ((exampleWorld (onlineEvent ''acme'') [])
              \<lparr>plainClone := Inl (OtherError ''mkdir infosecstreams.github.io: file exists'')\<rparr>)
     (exampleRepo [] False [])
   = ([PlainClone ''infosecstreams.github.io''
         ''https://github.com/infosecstreams/infosecstreams.github.io'',
       PlainOpen ''infosecstreams.github.io'', Log ''Doing git pull'', Worktree,
       Pull True ''HEAD'' ''origin''],
      Returns None,
      (exampleRepo [] False [])\<lparr>repo := Some (Repository ''infosecstreams.github.io'')\<rparr>)"
  by code_simp

text \<open>
  What \<open>getRepo\<close> does, case by case: a clone that succeeds is kept; a clone error
  whose text does not contain \<open>exists\<close> is returned and nothing else is tried; a
  clone error whose text contains it makes \<open>getRepo\<close> open the local repository
  and, when that and the worktree lookup succeed, pull from \<open>origin\<close> with \<open>Force\<close>
  and return \<open>nil\<close>.
\<close>

lemma getRepo_by_cases:
  assumes "4 < length (SplitN (url s) CHR ''/'' 5)"
  shows "(\<forall>r. plainClone w = Inr r \<longrightarrow>
            getRepo w s = ([PlainClone (SplitN (url s) CHR ''/'' 5 ! 4) (url s)], Returns None,
                           s\<lparr>repo := Some r\<rparr>))
       \<and> (\<forall>err. plainClone w = Inl err \<and> \<not> Contains (errorText err) ''exists'' \<longrightarrow>
            getRepo w s = ([PlainClone (SplitN (url s) CHR ''/'' 5 ! 4) (url s)],
                           Returns (Some err), s))
       \<and> (\<forall>err r. plainClone w = Inl err \<and> Contains (errorText err) ''exists''
              \<and> plainOpen w = Inr r \<and> worktreeOfOpened w = None \<longrightarrow>
            getRepo w s = ([PlainClone (SplitN (url s) CHR ''/'' 5 ! 4) (url s),
                            PlainOpen (repoPath s), Log ''Doing git pull'', Worktree,
                            Pull True ''HEAD'' ''origin''],
                           Returns None, s\<lparr>repo := Some r\<rparr>))
       \<and> (PlainOpen (repoPath s) \<in> set (fst (getRepo w s))
            \<longleftrightarrow> (\<exists>err. plainClone w = Inl err \<and> Contains (errorText err) ''exists''))"
  using assms
  by (auto simp: getRepo_def Let_def split: sum.splits option.splits)

lemma getRepo_by_cases_example:
  "4 < length (SplitN (url (exampleRepo [] False [])) CHR ''/'' 5)
   \<and> getRepo (exampleWorld (onlineEvent ''acme'') []) (exampleRepo [] False [])
       = ([PlainClone ''infosecstreams.github.io''
             ''https://github.com/infosecstreams/infosecstreams.github.io'',
           PlainOpen ''infosecstreams.github.io'', Log ''Doing git pull'', Worktree,
           Pull True ''HEAD'' ''origin''],
          Returns None,
          (exampleRepo [] False [])\<lparr>repo := Some (Repository ''infosecstreams.github.io'')\<rparr>)
   \<and> getRepo ((exampleWorld (onlineEvent ''acme'') [])
                 \<lparr>plainClone := Inl (OtherError ''authentication required'')\<rparr>)
        (exampleRepo [] False [])
       = ([PlainClone ''infosecstreams.github.io''
             ''https://github.com/infosecstreams/infosecstreams.github.io''],
          Returns (Some (OtherError ''authentication required'')),
          exampleRepo [] False [])"
proof -
  let ?s = "exampleRepo [] False []"
  let ?w = "exampleWorld (onlineEvent ''acme'') []"
  let ?w2 = "?w\<lparr>plainClone := Inl (OtherError ''authentication required'')\<rparr>"
  have u: "4 < length (SplitN (url ?s) CHR ''/'' 5)" by code_simp
  have d: "SplitN (url ?s) CHR ''/'' 5 ! 4 = ''infosecstreams.github.io''" by code_simp
  have p: "repoPath ?s = ''infosecstreams.github.io''"
    "url ?s = ''https://github.com/infosecstreams/infosecstreams.github.io''"
    by (simp_all add: exampleRepo_def)
  have c1: "plainClone ?w = Inl (OtherError ''repository already exists'')"
    "plainOpen ?w = Inr (Repository ''infosecstreams.github.io'')" "worktreeOfOpened ?w = None"
    by (simp_all add: exampleWorld_def)
  have e1: "Contains (errorText (OtherError ''repository already exists'')) ''exists''"
    by code_simp
  have c2: "plainClone ?w2 = Inl (OtherError ''authentication required'')" by simp
  have e2: "\<not> Contains (errorText (OtherError ''authentication required'')) ''exists''"
    by code_simp
  have r1: "getRepo ?w ?s = ([PlainClone (SplitN (url ?s) CHR ''/'' 5 ! 4) (url ?s),
                            PlainOpen (repoPath ?s), Log ''Doing git pull'', Worktree,
                            Pull True ''HEAD'' ''origin''],
                           Returns None, ?s\<lparr>repo := Some (Repository ''infosecstreams.github.io'')\<rparr>)"
    using getRepo_by_cases [OF u, of ?w] c1 e1 by blast
  have r2: "getRepo ?w2 ?s = ([PlainClone (SplitN (url ?s) CHR ''/'' 5 ! 4) (url ?s)],
                           Returns (Some (OtherError ''authentication required'')), ?s)"
    using getRepo_by_cases [OF u, of ?w2] c2 e2 by blast
  show ?thesis using u r1 r2 d p by simp
qed

text \<open>
  Claim C10. When \<open>SS_GH_REPO\<close> is set, \<open>repoUrl\<close> stays empty, its split has one
  field and the index \<open>4\<close> panics before anything is served; and whenever \<open>main\<close>
  does get to serve, the URL of the repository is the default one, so the
  configured URL is never used.
\<close>

theorem main_ignores_configured_repo:
  "(getenv ''SS_GH_REPO'' \<noteq> [] \<longrightarrow> main getenv = ([], StartupPanics 4 1))
   \<and> (\<forall>l port r. main getenv = (l, ListenAndServe port r) \<longrightarrow> url r = defaultRepoUrl)"
  by (auto simp: main_def Let_def split: if_splits)

theorem main_ignores_configured_repo_witness:
  "exampleEnv ''SS_GH_REPO'' \<noteq> [] \<and> main exampleEnv = ([], StartupPanics 4 1)"
proof -
  have a: "exampleEnv ''SS_GH_REPO'' \<noteq> []" by (simp add: exampleEnv_def)
  show ?thesis using main_ignores_configured_repo [of exampleEnv] a by simp
qed

end
